theory Spec2Isabelle
  imports Complex_Main
begin

section \<open>ReTag marketplace backend: product lifecycle, settlement and fallback pricing\<close>

text \<open>
  A shallow embedding of the request handlers of \<^verbatim>\<open>routes/sell.ts\<close> (submission, seller
  offer, admin review, price edit), of \<^verbatim>\<open>routes/payments.ts\<close> (payment verification and the
  admin override) and of the price fallback of \<^verbatim>\<open>utils/aiService.ts\<close>.

  A handler is a function from the request and the database to the HTTP response and the
  database it leaves behind. The Mongo collections are the state: orders as a list in
  insertion order (\<^verbatim>\<open>findOne\<close> takes the first match), products as a map from \<^verbatim>\<open>_id\<close> to the
  document. Everything the handlers call but the repository does not define is a parameter:
  the HMAC and the key of the payment gateway, \<^verbatim>\<open>ObjectId.isValid\<close> and the identifier a
  string casts to, the conversion of a string to a number, the number cast of the schema,
  \<^verbatim>\<open>JSON.parse\<close>, the clock, and whether a database call throws.

  Strings are sequences of code units; the identifiers and literals that occur are ASCII
  (the en dash in two message texts of the price fallback is written as a hyphen).

  \<^verbatim>\<open>admin_review\<close> and \<^verbatim>\<open>listed_product\<close> are nested paths of \<^verbatim>\<open>ProductSchema\<close>, not
  sub-documents: a product always has both objects, each field of them is optional, and a
  new product carries the defaults of the schema in them (\<^verbatim>\<open>pricing_type: 'fixed'\<close> and the
  empty \<^verbatim>\<open>tags\<close> array). A number that a handler takes from \<^verbatim>\<open>req.body\<close> is untyped: it is a
  \<open>jsval\<close>, tested and compared as JavaScript does, and cast by the schema when it is stored.

  Left out are the \<^verbatim>\<open>created_at\<close>/\<^verbatim>\<open>updated_at\<close> stamps, which the store maintains by itself,
  the \<^verbatim>\<open>trim\<close> setters of the schema (submitted strings are taken as trimmed), the fields of an
  order that no handler below reads (the address snapshot, the delivery date), and, in a
  response, everything but the status code, the \<^verbatim>\<open>success\<close> flag, the message and the error
  text.
\<close>

subsection \<open>Numbers\<close>

text \<open>
  A JavaScript number is an IEEE-754 binary64 value. The finite ones are rationals, and an
  arithmetic operation is the exact operation followed by rounding to the nearest value with
  a 53-bit significand, ties to even. Overflow and underflow do not arise in the computations
  below (the discount of a price below the mrp, products with 100 and 0.5) and are not
  modelled; NaN and the infinities appear only as the result of a conversion that the
  environment supplies.
\<close>

type_synonym number = rat

function log2_int :: "int \<Rightarrow> int" where
  \<comment> \<open>for \<open>0 < n\<close>: the \<open>k\<close> with \<open>2 ^ k \<le> n < 2 ^ (k + 1)\<close>\<close>
  "log2_int n = (if n < 2 then 0 else 1 + log2_int (n div 2))"
  by pat_completeness auto
termination
  by (relation "measure nat") auto

declare log2_int.simps [simp del]

definition pow2 :: "int \<Rightarrow> rat" where
  "pow2 e = (if 0 \<le> e then 2 ^ nat e else 1 / 2 ^ nat (- e))"

definition binary_exponent :: "rat \<Rightarrow> int" where
  \<comment> \<open>for \<open>0 < x\<close>: the \<open>e\<close> with \<open>2 ^ e \<le> x < 2 ^ (e + 1)\<close>\<close>
  "binary_exponent x =
     (let (p, q) = quotient_of x;
          e = log2_int p - log2_int q
      in if pow2 e \<le> x then e else e - 1)"

definition round_ties_even :: "rat \<Rightarrow> int" where
  "round_ties_even x =
     (let f = \<lfloor>x\<rfloor>; d = x - of_int f
      in if d < 1 / 2 then f else if 1 / 2 < d then f + 1 else if even f then f else f + 1)"

definition fl :: "rat \<Rightarrow> number" where
  "fl x =
     (if x = 0 then 0
      else let a = \<bar>x\<bar>; u = pow2 (binary_exponent a - 52)
           in sgn x * of_int (round_ties_even (a / u)) * u)"

definition js_sub :: "number \<Rightarrow> number \<Rightarrow> number" where
  "js_sub a b = fl (a - b)"

definition js_mul :: "number \<Rightarrow> number \<Rightarrow> number" where
  "js_mul a b = fl (a * b)"

definition js_div :: "number \<Rightarrow> number \<Rightarrow> number" where
  \<comment> \<open>\<open>b \<noteq> 0\<close> at every use below\<close>
  "js_div a b = fl (a / b)"

definition literal :: "rat \<Rightarrow> number" where
  \<comment> \<open>the value of a decimal literal of the source\<close>
  "literal x = fl x"

definition Math_round :: "number \<Rightarrow> number" where
  \<comment> \<open>the nearest integer, a tie going up\<close>
  "Math_round x = of_int \<lfloor>x + 1 / 2\<rfloor>"

subsection \<open>Values of a request body\<close>

text \<open>
  A field of a parsed body is any JSON value, or missing. An array or an object is kept as
  the string that \<^verbatim>\<open>ToPrimitive\<close> turns it into, which is all that a comparison sees of it.
  A number of a body is taken to be finite: JSON has no literal for NaN, and a literal beyond
  the range of binary64 is left out. \<open>jsnum\<close> adds what a conversion or a division can
  produce.
\<close>

datatype jsval = JAbsent | JNull | JBool bool | JNum number | JStr string | JObj string

datatype jsnum = NaN | NegInf | Fin number | PosInf

fun js_truthy :: "jsval \<Rightarrow> bool" where
  "js_truthy JAbsent = False"
| "js_truthy JNull = False"
| "js_truthy (JBool b) = b"
| "js_truthy (JNum x) = (x \<noteq> 0)"
| "js_truthy (JStr s) = (s \<noteq> [])"
| "js_truthy (JObj s) = True"

definition or_undefined :: "jsval \<Rightarrow> jsval" where
  \<comment> \<open>\<^verbatim>\<open>v || undefined\<close>\<close>
  "or_undefined v = (if js_truthy v then v else JAbsent)"

fun primitive_string :: "jsval \<Rightarrow> string option" where
  \<comment> \<open>the operand of a comparison when it is a string after \<^verbatim>\<open>ToPrimitive\<close>\<close>
  "primitive_string (JStr s) = Some s"
| "primitive_string (JObj s) = Some s"
| "primitive_string v = None"

fun str_less :: "string \<Rightarrow> string \<Rightarrow> bool" where
  \<comment> \<open>the order of two strings under \<^verbatim>\<open><\<close>: by code units, a proper prefix first\<close>
  "str_less [] [] = False"
| "str_less [] (y # ys) = True"
| "str_less (x # xs) [] = False"
| "str_less (x # xs) (y # ys) =
     ((of_char x :: nat) < of_char y \<or> (x = y \<and> str_less xs ys))"

fun jsnum_less :: "jsnum \<Rightarrow> jsnum \<Rightarrow> bool" where
  \<comment> \<open>\<open>a < b\<close> on numbers; false when one of them is NaN\<close>
  "jsnum_less NaN b = False"
| "jsnum_less a NaN = False"
| "jsnum_less PosInf b = False"
| "jsnum_less a NegInf = False"
| "jsnum_less NegInf b = True"
| "jsnum_less a PosInf = True"
| "jsnum_less (Fin x) (Fin y) = (x < y)"

definition to_number :: "(string \<Rightarrow> jsnum) \<Rightarrow> jsval \<Rightarrow> jsnum" where
  \<comment> \<open>\<^verbatim>\<open>ToNumber\<close>, given the conversion of strings\<close>
  "to_number string_to_number v =
     (case v of
        JAbsent \<Rightarrow> NaN
      | JNull \<Rightarrow> Fin 0
      | JBool b \<Rightarrow> Fin (if b then 1 else 0)
      | JNum x \<Rightarrow> Fin x
      | JStr s \<Rightarrow> string_to_number s
      | JObj s \<Rightarrow> string_to_number s)"

definition js_lt :: "(string \<Rightarrow> jsnum) \<Rightarrow> jsval \<Rightarrow> jsval \<Rightarrow> bool" where
  \<comment> \<open>\<^verbatim>\<open>a < b\<close>: two strings by code units, anything else as numbers\<close>
  "js_lt string_to_number a b =
     (case (primitive_string a, primitive_string b) of
        (Some s, Some t) \<Rightarrow> str_less s t
      | _ \<Rightarrow> jsnum_less (to_number string_to_number a) (to_number string_to_number b))"

definition js_le :: "(string \<Rightarrow> jsnum) \<Rightarrow> jsval \<Rightarrow> jsval \<Rightarrow> bool" where
  \<comment> \<open>\<^verbatim>\<open>a <= b\<close>: not \<^verbatim>\<open>b < a\<close>, and false when an operand converts to NaN\<close>
  "js_le string_to_number a b =
     (case (primitive_string a, primitive_string b) of
        (Some s, Some t) \<Rightarrow> \<not> str_less t s
      | _ \<Rightarrow>
          to_number string_to_number a \<noteq> NaN \<and> to_number string_to_number b \<noteq> NaN
          \<and> \<not> jsnum_less (to_number string_to_number b) (to_number string_to_number a))"

definition nonempty :: "string option \<Rightarrow> bool" where
  \<comment> \<open>truthiness of an optional string: \<^verbatim>\<open>undefined\<close> and \<^verbatim>\<open>''\<close> are falsy\<close>
  "nonempty v = (case v of None \<Rightarrow> False | Some x \<Rightarrow> x \<noteq> [])"

definition number_or :: "number option \<Rightarrow> number \<Rightarrow> number" where
  \<comment> \<open>\<^verbatim>\<open>v || dflt\<close> on an optional number\<close>
  "number_or v dflt = (case v of None \<Rightarrow> dflt | Some x \<Rightarrow> if x = 0 then dflt else x)"

definition string_or :: "string option \<Rightarrow> string \<Rightarrow> string" where
  \<comment> \<open>\<^verbatim>\<open>v || dflt\<close> on an optional string\<close>
  "string_or v dflt = (case v of None \<Rightarrow> dflt | Some x \<Rightarrow> if x = [] then dflt else x)"

subsection \<open>Data model\<close>

datatype status = Pending | Approved | Rejected | Listed | Sold

datatype order_status = Created | Paid | Failed

datatype quality = Excellent | Good | Fair | Poor

fun quality_name :: "quality \<Rightarrow> string" where
  "quality_name Excellent = ''excellent''"
| "quality_name Good = ''good''"
| "quality_name Fair = ''fair''"
| "quality_name Poor = ''poor''"

record image_analysis =
  caption :: string
  quality :: quality
  ia_category :: string
  brand_detected :: "string option"
  colors_detected :: "string list option"
  condition_score :: number
  features :: "string list"

record price_suggestion =
  suggested_price :: number
  reasoning :: string
  market_comparison :: string
  confidence_score :: number
  factors :: "string list"

record ai_analysis =
  image_analysis :: image_analysis
  price_suggestion :: price_suggestion
  final_recommendation :: string

record admin_review =
  final_price :: "number option"
  ar_mrp :: "number option"
  ar_discount_percentage :: "number option"
  pricing_type :: "string option"
  admin_notes :: "string option"
  reviewed_by :: "string option"
  reviewed_at :: "nat option"

record listed_product =
  title :: "string option"
  description :: "string option"
  price :: "number option"
  lp_mrp :: "number option"
  lp_discount_percentage :: "number option"
  lp_category :: "string option"
  tags :: "string list"
  listed_at :: "nat option"
  lp_mainCategory :: "string option"

record product =
  seller :: string
  article :: string
  brand :: string
  category :: string
  gender :: "string option"
  size_label :: "string option"
  age :: "string option"
  wear_count :: "number option"
  damage :: "string option"
  images :: "string list"
  ai_analysis :: ai_analysis
  status :: status
  admin_review :: admin_review
  pickup_details :: "string option"
  payment_details :: "string option"
  listed_product :: listed_product
  mainCategory :: "string option"

record cart_item =
  productId :: string
  item_name :: string
  item_price :: string
  quantity :: number
  item_image :: "string option"

record order =
  order_key :: string
  buyer :: string
  cart :: "cart_item list"
  amount :: number
  order_status :: order_status
  razorpayOrderId :: string
  razorpayPaymentId :: "string option"

record db =
  orders :: "order list"
  products :: "string \<rightharpoonup> product"

record user =
  user_key :: string
  email :: string

record response =
  code :: nat
  success :: "bool option"
  message :: string
  error :: "string option"

definition reply :: "nat \<Rightarrow> string \<Rightarrow> response" where
  \<comment> \<open>\<^verbatim>\<open>res.status(code).json({ message })\<close>\<close>
  "reply c m = \<lparr>code = c, success = None, message = m, error = None\<rparr>"

definition reply_success :: "nat \<Rightarrow> bool \<Rightarrow> string \<Rightarrow> response" where
  \<comment> \<open>\<^verbatim>\<open>res.status(code).json({ success, message })\<close>\<close>
  "reply_success c s m = \<lparr>code = c, success = Some s, message = m, error = None\<rparr>"

subsection \<open>The environment\<close>

text \<open>
  \<open>hmac_sha256_hex key msg\<close> is \<^verbatim>\<open>crypto.createHmac('sha256', key).update(msg).digest('hex')\<close>,
  \<open>key_secret\<close> is \<^verbatim>\<open>process.env.RAZORPAY_KEY_SECRET\<close>, \<open>isValid\<close> is
  \<^verbatim>\<open>mongoose.Types.ObjectId.isValid\<close> on a string. The store casts a string to an identifier
  exactly when \<open>isValid\<close> accepts it, and \<open>objectId s\<close> is then the identifier, written as the
  key under which \<open>products\<close> holds the document; for any other string the cast throws.
  \<open>toNumber\<close> is \<^verbatim>\<open>ToNumber\<close> on a string, \<open>mongoose_number\<close> is the cast of a \<^verbatim>\<open>Number\<close> path of
  the schema (\<open>None\<close> when it fails, \<open>Some None\<close> when it stores nothing), and \<open>js_percentage\<close>
  is the value of \<^verbatim>\<open>Math.round(((mrp - price) / mrp) * 100)\<close> on operands that are not both
  numbers with \<open>0 < price < mrp\<close>.
\<close>

record env =
  key_secret :: string
  hmac_sha256_hex :: "string \<Rightarrow> string \<Rightarrow> string"
  isValid :: "string \<Rightarrow> bool"
  objectId :: "string \<Rightarrow> string"
  toNumber :: "string \<Rightarrow> jsnum"
  mongoose_number :: "jsval \<Rightarrow> number option option"
  js_percentage :: "jsval \<Rightarrow> jsval \<Rightarrow> jsnum"

text \<open>
  A database call may throw, which sends the handler to its \<^verbatim>\<open>catch\<close> block; no later call
  is made then, so one index says which call of the handler throws (counted from 0 in
  program order). \<^verbatim>\<open>updateMany\<close> is not atomic over the documents it matches: \<open>written\<close> is
  the number of identifiers of its list it had got through when it threw. \<open>thrown\<close> is the
  message of the exception.
\<close>

record fault =
  throws_at :: "nat option"
  written :: nat
  thrown :: string

definition no_fault :: fault where
  "no_fault = \<lparr>throws_at = None, written = 0, thrown = []\<rparr>"

definition throws :: "fault \<Rightarrow> nat \<Rightarrow> bool" where
  "throws flt k = (throws_at flt = Some k)"

subsection \<open>Settlement: \<^verbatim>\<open>POST /verify\<close> and \<^verbatim>\<open>POST /admin/complete-order/:orderId\<close>\<close>

definition admin_email :: string where
  "admin_email = ''retagcontact00@gmail.com''"

fun findOne_order :: "string \<Rightarrow> order list \<Rightarrow> order option" where
  \<comment> \<open>\<^verbatim>\<open>Order.findOne({ razorpayOrderId })\<close>\<close>
  "findOne_order rid [] = None"
| "findOne_order rid (x # xs) = (if razorpayOrderId x = rid then Some x else findOne_order rid xs)"

fun findOneAndUpdate_paid :: "string \<Rightarrow> string \<Rightarrow> order list \<Rightarrow> order list" where
  \<comment> \<open>\<^verbatim>\<open>Order.findOneAndUpdate({ razorpayOrderId }, { status: 'paid', razorpayPaymentId })\<close>\<close>
  "findOneAndUpdate_paid rid pid [] = []"
| "findOneAndUpdate_paid rid pid (x # xs) =
     (if razorpayOrderId x = rid
      then x\<lparr>order_status := Paid, razorpayPaymentId := Some pid\<rparr> # xs
      else x # findOneAndUpdate_paid rid pid xs)"

fun findById_order :: "string \<Rightarrow> order list \<Rightarrow> order option" where
  \<comment> \<open>\<^verbatim>\<open>Order.findById(orderId)\<close>\<close>
  "findById_order k [] = None"
| "findById_order k (x # xs) = (if order_key x = k then Some x else findById_order k xs)"

fun findByIdAndUpdate_paid :: "string \<Rightarrow> string \<Rightarrow> order list \<Rightarrow> order list" where
  \<comment> \<open>\<^verbatim>\<open>Order.findByIdAndUpdate(orderId, { status: 'paid', razorpayPaymentId })\<close>\<close>
  "findByIdAndUpdate_paid k pid [] = []"
| "findByIdAndUpdate_paid k pid (x # xs) =
     (if order_key x = k
      then x\<lparr>order_status := Paid, razorpayPaymentId := Some pid\<rparr> # xs
      else x # findByIdAndUpdate_paid k pid xs)"

definition cast_ids :: "env \<Rightarrow> string list \<Rightarrow> string list option" where
  \<comment> \<open>the cast of the references of \<^verbatim>\<open>{ _id: { $in: ids } }\<close> to identifiers; \<open>None\<close> is a
      \<^verbatim>\<open>CastError\<close>\<close>
  "cast_ids e ids = (if list_all (isValid e) ids then Some (map (objectId e) ids) else None)"

definition updateMany_sold :: "string list \<Rightarrow> (string \<rightharpoonup> product) \<Rightarrow> (string \<rightharpoonup> product)" where
  \<comment> \<open>the write of \<^verbatim>\<open>Product.updateMany({ _id: { $in: ids } }, { status: 'sold' })\<close>, on the
      identifiers that the references were cast to\<close>
  "updateMany_sold keys ps =
     (\<lambda>k. if k \<in> set keys then map_option (\<lambda>p. p\<lparr>status := Sold\<rparr>) (ps k) else ps k)"

record verify_request =
  order_id :: string
  payment_id :: string
  signature :: string

definition server_error :: "fault \<Rightarrow> response" where
  \<comment> \<open>the \<^verbatim>\<open>catch\<close> block of \<^verbatim>\<open>/verify\<close>\<close>
  "server_error flt =
     \<lparr>code = 500, success = Some False, message = ''Error updating order status'',
      error = Some (thrown flt)\<rparr>"

definition cast_error :: response where
  \<comment> \<open>the \<^verbatim>\<open>catch\<close> block of \<^verbatim>\<open>/verify\<close> on a \<^verbatim>\<open>CastError\<close> (its message is abridged)\<close>
  "cast_error =
     \<lparr>code = 500, success = Some False, message = ''Error updating order status'',
      error = Some ''Cast to ObjectId failed''\<rparr>"

definition verify :: "env \<Rightarrow> fault \<Rightarrow> verify_request \<Rightarrow> db \<Rightarrow> response \<times> db" where
  "verify e flt rq d =
     (let generated_signature =
            hmac_sha256_hex e (key_secret e) (order_id rq @ ''|'' @ payment_id rq)
      in if generated_signature = signature rq then
           if throws flt 0 then (server_error flt, d)
           else case findOne_order (order_id rq) (orders d) of
             None \<Rightarrow>
               if throws flt 1 then (server_error flt, d)
               else (reply_success 404 False ''Order not found'', d)
           | Some order \<Rightarrow>
               if throws flt 1 then (server_error flt, d)
               else
                 let d1 = d\<lparr>orders := findOneAndUpdate_paid (order_id rq) (payment_id rq) (orders d)\<rparr>;
                     productIds = map productId (cart order);
                     validObjectIds = filter (\<lambda>k. isValid e k \<and> length k = 24) productIds
                 in if 0 < length validObjectIds then
                      (case cast_ids e validObjectIds of
                         None \<Rightarrow> (cast_error, d1)
                       | Some keys \<Rightarrow>
                           if throws flt 2
                           then (server_error flt,
                                 d1\<lparr>products :=
                                      updateMany_sold (take (written flt) keys) (products d1)\<rparr>)
                           else
                             let d2 = d1\<lparr>products := updateMany_sold keys (products d1)\<rparr>
                             in if throws flt 3 then (server_error flt, d2)
                                else (reply_success 200 True ''Payment has been verified'', d2))
                    else (reply_success 200 True ''Payment has been verified'', d1)
         else (reply_success 400 False ''Payment verification failed - signature mismatch'', d))"

text \<open>
  The admin override hands the cart references to the store as they are: one reference that
  does not cast makes \<^verbatim>\<open>updateMany\<close> throw before it writes, after the order was marked paid.
  \<open>orderId\<close> is the identifier that \<^verbatim>\<open>req.params.orderId\<close> casts to; when that cast fails
  \<^verbatim>\<open>findById\<close> throws, which is fault 0.
\<close>

definition complete_order :: "env \<Rightarrow> fault \<Rightarrow> user option \<Rightarrow> string \<Rightarrow> db \<Rightarrow> response \<times> db" where
  "complete_order e flt caller orderId d =
     (case caller of
        None \<Rightarrow> (reply 401 ''Unauthorized'', d)
      | Some u \<Rightarrow>
          if email u \<noteq> admin_email then (reply 403 ''Forbidden: Admins only'', d)
          else if throws flt 0 then (reply_success 500 False ''Error completing order'', d)
          else (case findById_order orderId (orders d) of
            None \<Rightarrow> (reply_success 404 False ''Order not found'', d)
          | Some order \<Rightarrow>
              if order_status order = Paid
              then (reply_success 400 False ''Order already completed'', d)
              else if throws flt 1 then (reply_success 500 False ''Error completing order'', d)
              else
                let d1 = d\<lparr>orders := findByIdAndUpdate_paid orderId ''manual_verification'' (orders d)\<rparr>;
                    productIds = map productId (cart order)
                in (case cast_ids e productIds of
                      None \<Rightarrow> (reply_success 500 False ''Error completing order'', d1)
                    | Some keys \<Rightarrow>
                        if throws flt 2
                        then (reply_success 500 False ''Error completing order'',
                              d1\<lparr>products := updateMany_sold (take (written flt) keys) (products d1)\<rparr>)
                        else (reply_success 200 True ''Order completed successfully'',
                              d1\<lparr>products := updateMany_sold keys (products d1)\<rparr>))))"

subsection \<open>Sell routes: submission, seller offer, admin review, price edit\<close>

text \<open>
  \<open>caller\<close> is what \<^verbatim>\<open>passport.authenticate('jwt')\<close> leaves in \<^verbatim>\<open>req.user\<close>: \<open>None\<close> when the
  token is missing or bad, and the request is answered 401 before the handler runs. \<open>pid\<close> is
  the identifier that \<^verbatim>\<open>req.params.id\<close> casts to; when that cast fails the lookup throws,
  which is fault 0 of the handler. The strings of a body (\<^verbatim>\<open>action\<close>, \<^verbatim>\<open>pricing_type\<close>,
  \<^verbatim>\<open>admin_notes\<close>, the seller's details) are taken as strings or missing.

  \<^verbatim>\<open>||\<close> in a guard is its two tests in a row. \<^verbatim>\<open>save\<close> validates what the handler
  assigned: a number that does not cast, a \<^verbatim>\<open>discount_percentage\<close> outside 0 to 100 or a
  \<^verbatim>\<open>pricing_type\<close> outside its enumeration makes it throw, and nothing is written. Any other rejection by the store (a required field missing
  at \<^verbatim>\<open>create\<close>, a lost connection) is a fault of that call.
\<close>

definition cast_number :: "env \<Rightarrow> jsval \<Rightarrow> number option option" where
  \<comment> \<open>what a \<^verbatim>\<open>Number\<close> path holds after the assignment of \<open>v\<close>; \<open>None\<close> when the cast fails\<close>
  "cast_number e v =
     (case v of JNum x \<Rightarrow> Some (Some x) | JAbsent \<Rightarrow> Some None | _ \<Rightarrow> mongoose_number e v)"

definition valid_percentage :: "number option \<Rightarrow> bool" where
  \<comment> \<open>\<^verbatim>\<open>discount_percentage: { type: Number, min: 0, max: 100 }\<close>\<close>
  "valid_percentage v = (case v of None \<Rightarrow> True | Some x \<Rightarrow> 0 \<le> x \<and> x \<le> 100)"

definition pricing_types :: "string list" where
  "pricing_types = [''fixed'', ''percentage'']"

definition new_review :: admin_review where
  \<comment> \<open>\<^verbatim>\<open>admin_review\<close> of a new document: the default of \<^verbatim>\<open>pricing_type\<close>\<close>
  "new_review =
     \<lparr>final_price = None, ar_mrp = None, ar_discount_percentage = None,
      pricing_type = Some ''fixed'', admin_notes = None, reviewed_by = None, reviewed_at = None\<rparr>"

definition no_listing :: listed_product where
  \<comment> \<open>\<^verbatim>\<open>listed_product\<close> of a new document: the default of \<^verbatim>\<open>tags\<close>\<close>
  "no_listing =
     \<lparr>title = None, description = None, price = None, lp_mrp = None,
      lp_discount_percentage = None, lp_category = None, tags = [], listed_at = None,
      lp_mainCategory = None\<rparr>"

record upload =
  mimetype :: string
  path :: string
  filename :: string

record submit_request =
  sr_article :: string
  sr_brand :: string
  sr_category :: string
  sr_gender :: "string option"
  sr_size :: "string option"
  sr_age :: "string option"
  sr_wear_count :: "number option"
  sr_damage :: "string option"
  sr_files :: "upload list"
  sr_image_readable :: bool

definition allowedTypes :: "string list" where
  "allowedTypes = [''image/jpeg'', ''image/png'', ''image/jpg'']"

definition submit ::
  "bool \<Rightarrow> fault \<Rightarrow> user option \<Rightarrow> submit_request \<Rightarrow> ai_analysis option \<Rightarrow> string \<Rightarrow> db
     \<Rightarrow> response \<times> db" where
  \<comment> \<open>\<open>aiAnalysis\<close> is what \<^verbatim>\<open>aiService.analyzeProduct\<close> returned, \<open>None\<close> when it threw;
      \<open>new_id\<close> is the \<^verbatim>\<open>_id\<close> the store gives the new document\<close>
  "submit useCloudinary flt caller rq aiAnalysis new_id d =
     (case caller of
        None \<Rightarrow> (reply 401 ''Unauthorized'', d)
      | Some u \<Rightarrow>
          if sr_files rq = [] then (reply 400 ''At least one image is required'', d)
          else if list_ex (\<lambda>file. mimetype file \<notin> set allowedTypes) (sr_files rq)
          then (reply 400 ''Images must be JPEG or PNG files'', d)
          else if \<not> sr_image_readable rq then (reply 500 ''Error processing image'', d)
          else
            let processedImages =
                  map (\<lambda>file. if useCloudinary then path file else ''uploads/'' @ filename file)
                    (sr_files rq)
            in (case aiAnalysis of
                  None \<Rightarrow> (reply 500 ''Failed to analyze product. Please try again.'', d)
                | Some analysis \<Rightarrow>
                    if throws flt 0 \<or> products d new_id \<noteq> None then (reply 500 ''Server error'', d)
                    else
                      (reply 201 ''Product submitted successfully'',
                       d\<lparr>products := (products d)(new_id \<mapsto>
                           \<lparr>seller = user_key u, article = sr_article rq, brand = sr_brand rq,
                            category = sr_category rq, gender = sr_gender rq,
                            size_label = sr_size rq, age = sr_age rq,
                            wear_count = sr_wear_count rq, damage = sr_damage rq,
                            images = processedImages, ai_analysis = analysis, status = Pending,
                            admin_review = new_review, pickup_details = None,
                            payment_details = None, listed_product = no_listing,
                            mainCategory = None\<rparr>)\<rparr>)))"

definition accept_offer ::
  "fault \<Rightarrow> user option \<Rightarrow> string \<Rightarrow> string option \<Rightarrow> string option \<Rightarrow> db \<Rightarrow> response \<times> db" where
  "accept_offer flt caller pid pickup payment d =
     (case caller of
        None \<Rightarrow> (reply 401 ''Unauthorized'', d)
      | Some u \<Rightarrow>
          if \<not> nonempty pickup \<or> \<not> nonempty payment
          then (reply 400 ''Pickup and payment details are required'', d)
          else if throws flt 0 then (reply 500 ''Server error'', d)
          else (case products d pid of
                  None \<Rightarrow> (reply 404 ''Submission not found or already processed'', d)
                | Some product \<Rightarrow>
                    if seller product \<noteq> user_key u \<or> status product \<noteq> Pending
                    then (reply 404 ''Submission not found or already processed'', d)
                    else if throws flt 1 then (reply 500 ''Server error'', d)
                    else
                      (reply 200 ''Offer accepted successfully. We will contact you soon for pickup.'',
                       d\<lparr>products := (products d)(pid \<mapsto>
                           product\<lparr>pickup_details := pickup, payment_details := payment,
                                   status := Approved\<rparr>)\<rparr>)))"

definition empty_review :: admin_review where
  \<comment> \<open>an \<^verbatim>\<open>admin_review\<close> with no field set\<close>
  "empty_review =
     \<lparr>final_price = None, ar_mrp = None, ar_discount_percentage = None, pricing_type = None,
      admin_notes = None, reviewed_by = None, reviewed_at = None\<rparr>"

definition reject_offer ::
  "fault \<Rightarrow> user option \<Rightarrow> string \<Rightarrow> string option \<Rightarrow> db \<Rightarrow> response \<times> db" where
  "reject_offer flt caller pid reason d =
     (case caller of
        None \<Rightarrow> (reply 401 ''Unauthorized'', d)
      | Some u \<Rightarrow>
          if throws flt 0 then (reply 500 ''Server error'', d)
          else (case products d pid of
                  None \<Rightarrow> (reply 404 ''Submission not found or already processed'', d)
                | Some product \<Rightarrow>
                    if seller product \<noteq> user_key u \<or> status product \<noteq> Pending
                    then (reply 404 ''Submission not found or already processed'', d)
                    else
                      let product1 = product\<lparr>status := Rejected\<rparr>;
                          product2 =
                            (case reason of
                               None \<Rightarrow> product1
                             | Some why \<Rightarrow>
                                 if why = [] then product1
                                 else product1\<lparr>admin_review :=
                                        (admin_review product1)
                                          \<lparr>admin_notes := Some (''Rejected by seller: '' @ why)\<rparr>\<rparr>)
                      in if throws flt 1 then (reply 500 ''Server error'', d)
                         else (reply 200 ''Offer rejected successfully'',
                               d\<lparr>products := (products d)(pid \<mapsto> product2)\<rparr>)))"

record review_body =
  rb_final_price :: jsval
  rb_mrp :: jsval
  rb_discount_percentage :: jsval
  rb_pricing_type :: "string option"
  rb_admin_notes :: "string option"
  rb_action :: "string option"

definition main_category_of :: "string option \<Rightarrow> string" where
  "main_category_of g =
     (if g = Some ''male'' then ''Men''
      else if g = Some ''female'' then ''Women''
      else if g = Some ''kids'' then ''Kids''
      else if g = Some ''unisex'' then ''Unisex''
      else ''Unisex'')"

definition listing_tags :: "product \<Rightarrow> string list" where
  \<comment> \<open>\<^verbatim>\<open>[brand, article, gender, quality, ...features].filter(Boolean)\<close>\<close>
  "listing_tags product =
     filter (\<lambda>tag. tag \<noteq> [])
       ([brand product, article product]
        @ (case gender product of None \<Rightarrow> [] | Some g \<Rightarrow> [g])
        @ [quality_name (quality (image_analysis (ai_analysis product)))]
        @ features (image_analysis (ai_analysis product)))"

definition adminReview ::
  "env \<Rightarrow> fault \<Rightarrow> user option \<Rightarrow> string \<Rightarrow> review_body \<Rightarrow> nat \<Rightarrow> db \<Rightarrow> response \<times> db" where
  \<comment> \<open>\<open>now\<close> is \<^verbatim>\<open>new Date()\<close>\<close>
  "adminReview e flt caller pid body now d =
     (case caller of
        None \<Rightarrow> (reply 401 ''Unauthorized'', d)
      | Some u \<Rightarrow>
          if email u \<noteq> admin_email then (reply 403 ''Forbidden: Admins only'', d)
          else (case rb_action body of
                  None \<Rightarrow> (reply 400 ''Action must be approve or reject'', d)
                | Some action \<Rightarrow>
                    if action \<notin> set [''approve'', ''reject'']
                    then (reply 400 ''Action must be approve or reject'', d)
                    else if throws flt 0 then (reply 500 ''Server error'', d)
                    else (case products d pid of
                            None \<Rightarrow> (reply 404 ''Submission not found'', d)
                          | Some product \<Rightarrow>
                              if action = ''approve'' then
                                if \<not> js_truthy (rb_final_price body)
                                then (reply 400 ''Final price is required for approval'', d)
                                else if js_le (toNumber e) (rb_final_price body) (JNum 0)
                                then (reply 400 ''Final price is required for approval'', d)
                                else
                                  (case (cast_number e (rb_final_price body),
                                         cast_number e (or_undefined (rb_mrp body)),
                                         cast_number e (or_undefined (rb_discount_percentage body))) of
                                     (Some fp, Some m, Some dp) \<Rightarrow>
                                       let pricing = string_or (rb_pricing_type body) ''fixed'';
                                           mainCat = main_category_of (gender product);
                                           product1 = product
                                             \<lparr>status := Listed,
                                              admin_review :=
                                                \<lparr>final_price = fp,
                                                 ar_mrp = m,
                                                 ar_discount_percentage = dp,
                                                 pricing_type = Some pricing,
                                                 admin_notes = rb_admin_notes body,
                                                 reviewed_by = Some (user_key u),
                                                 reviewed_at = Some now\<rparr>,
                                              mainCategory := Some mainCat,
                                              listed_product :=
                                                \<lparr>title = Some (brand product @ '' '' @ article product),
                                                 description = Some
                                                   (caption (image_analysis (ai_analysis product))
                                                    @ ''. ''
                                                    @ reasoning (price_suggestion (ai_analysis product))),
                                                 price = fp,
                                                 lp_mrp = m,
                                                 lp_discount_percentage = dp,
                                                 lp_category = Some (category product),
                                                 tags = listing_tags product,
                                                 listed_at = Some now,
                                                 lp_mainCategory = Some mainCat\<rparr>\<rparr>
                                       in if valid_percentage dp \<and> pricing \<in> set pricing_types
                                             \<and> \<not> throws flt 1
                                          then (reply 200 (''Submission '' @ action @ ''d successfully''),
                                                d\<lparr>products := (products d)(pid \<mapsto> product1)\<rparr>)
                                          else (reply 500 ''Server error'', d)
                                   | _ \<Rightarrow> (reply 500 ''Server error'', d))
                              else
                                let product1 = product
                                      \<lparr>status := Rejected,
                                       admin_review :=
                                         empty_review
                                           \<lparr>admin_notes := rb_admin_notes body,
                                            reviewed_by := Some (user_key u),
                                            reviewed_at := Some now\<rparr>\<rparr>
                                in if throws flt 1 then (reply 500 ''Server error'', d)
                                   else (reply 200 (''Submission '' @ action @ ''d successfully''),
                                         d\<lparr>products := (products d)(pid \<mapsto> product1)\<rparr>))))"

text \<open>
  The price edit computes the discount in binary64, on operands as the body gave them. Its
  guard \<^verbatim>\<open>mrp && mrp > price\<close> compares two strings as strings. \<^verbatim>\<open>admin_review\<close> and
  \<^verbatim>\<open>listed_product\<close> are objects on every product, so both \<^verbatim>\<open>if\<close> blocks of the handler run.
\<close>

definition percentage :: "env \<Rightarrow> jsval \<Rightarrow> jsval \<Rightarrow> jsnum" where
  \<comment> \<open>\<^verbatim>\<open>Math.round(((mrp - price) / mrp) * 100)\<close>\<close>
  "percentage e mrp p =
     (case (mrp, p) of
        (JNum m, JNum x) \<Rightarrow>
          if 0 < x \<and> x < m then Fin (Math_round (js_mul (js_div (js_sub m x) m) 100))
          else js_percentage e mrp p
      | _ \<Rightarrow> js_percentage e mrp p)"

fun stored_percentage :: "jsnum \<Rightarrow> number option option" where
  \<comment> \<open>what the path holds after the assignment of \<^verbatim>\<open>discountPercentage || undefined\<close>; an
      infinite value is one that \<^verbatim>\<open>save\<close> rejects\<close>
  "stored_percentage NaN = Some None"
| "stored_percentage (Fin x) = (if x = 0 then Some None else Some (Some x))"
| "stored_percentage NegInf = None"
| "stored_percentage PosInf = None"

definition editPrice ::
  "env \<Rightarrow> fault \<Rightarrow> user option \<Rightarrow> string \<Rightarrow> jsval \<Rightarrow> jsval \<Rightarrow> db \<Rightarrow> response \<times> db" where
  "editPrice e flt caller pid price_arg mrp d =
     (case caller of
        None \<Rightarrow> (reply 401 ''Unauthorized'', d)
      | Some u \<Rightarrow>
          if email u \<noteq> admin_email then (reply 403 ''Forbidden: Admins only'', d)
          else if \<not> js_truthy price_arg then (reply 400 ''Valid price is required'', d)
          else if js_le (toNumber e) price_arg (JNum 0)
          then (reply 400 ''Valid price is required'', d)
          else if throws flt 0 then (reply 500 ''Server error'', d)
          else (case products d pid of
                  None \<Rightarrow> (reply 404 ''Product not found'', d)
                | Some product \<Rightarrow>
                    if status product \<noteq> Listed
                    then (reply 400 ''Can only edit prices for listed products'', d)
                    else
                      let discountPercentage =
                            (if js_truthy mrp \<and> js_lt (toNumber e) price_arg mrp
                             then percentage e mrp price_arg else Fin 0)
                      in (case (cast_number e price_arg,
                                cast_number e (or_undefined mrp),
                                stored_percentage discountPercentage) of
                            (Some p, Some m, Some dp) \<Rightarrow>
                              let product1 = product\<lparr>admin_review :=
                                    (admin_review product)
                                      \<lparr>final_price := p, ar_mrp := m,
                                       ar_discount_percentage := dp\<rparr>\<rparr>;
                                  product2 = product1\<lparr>listed_product :=
                                    (listed_product product1)
                                      \<lparr>price := p, lp_mrp := m,
                                       lp_discount_percentage := dp\<rparr>\<rparr>
                              in if valid_percentage dp \<and> \<not> throws flt 1
                                 then (reply 200 ''Product price updated successfully'',
                                       d\<lparr>products := (products d)(pid \<mapsto> product2)\<rparr>)
                                 else (reply 500 ''Server error'', d)
                          | _ \<Rightarrow> (reply 500 ''Server error'', d))))"

subsection \<open>Fallback pricing: \<^verbatim>\<open>GeminiService\<close>\<close>

text \<open>
  The request to the generative model and its answer are outside the repository: \<open>call\<close> is
  the outcome of \<^verbatim>\<open>axios.post\<close> (it threw, or it answered, with the text of the first part of
  the first candidate when there is one), and \<open>json_parse\<close> is \<^verbatim>\<open>JSON.parse\<close> on the object
  literal found in that text, \<open>None\<close> when it throws. The prompt only feeds the request and is
  not modelled. \<open>no_details\<close> is the empty object \<^verbatim>\<open>{}\<close>.
\<close>

record serp_prices =
  serp_min :: number
  serp_max :: number
  serp_avg :: number

record product_details =
  pd_article :: "string option"
  pd_brand :: "string option"
  pd_category :: "string option"
  pd_gender :: "string option"
  pd_size :: "string option"
  pd_age :: "string option"
  pd_wear_count :: "number option"
  pd_damage :: "string option"

definition no_details :: product_details where
  "no_details =
     \<lparr>pd_article = None, pd_brand = None, pd_category = None, pd_gender = None, pd_size = None,
      pd_age = None, pd_wear_count = None, pd_damage = None\<rparr>"

definition toLowerCase_char :: "char \<Rightarrow> char" where
  \<comment> \<open>on the letters of ASCII\<close>
  "toLowerCase_char c =
     (case map_of (zip ''ABCDEFGHIJKLMNOPQRSTUVWXYZ'' ''abcdefghijklmnopqrstuvwxyz'') c of
        None \<Rightarrow> c | Some l \<Rightarrow> l)"

definition toLowerCase :: "string \<Rightarrow> string" where
  "toLowerCase s = map toLowerCase_char s"

fun includes_str :: "string \<Rightarrow> string \<Rightarrow> bool" where
  \<comment> \<open>\<^verbatim>\<open>haystack.includes(needle)\<close>\<close>
  "includes_str [] needle = (needle = [])"
| "includes_str (c # cs) needle =
     (take (length needle) (c # cs) = needle \<or> includes_str cs needle)"

definition fallbackPriceSuggestion :: "product_details \<Rightarrow> serp_prices option \<Rightarrow> price_suggestion" where
  "fallbackPriceSuggestion productDetails serpPrices =
     (let market_avg =
            \<comment> \<open>\<^verbatim>\<open>serpPrices && serpPrices.avg\<close>\<close>
            (case serpPrices of
               None \<Rightarrow> None
             | Some sp \<Rightarrow> if serp_avg sp = 0 then None else Some (serp_avg sp));
          basePrice =
            (case market_avg of
               Some average \<Rightarrow> Math_round (js_mul average (literal (1 / 2)))
             | None \<Rightarrow>
                 if (case pd_brand productDetails of
                       None \<Rightarrow> False | Some b \<Rightarrow> includes_str (toLowerCase b) ''nike'')
                 then 800
                 else 500)
      in \<lparr>suggested_price = basePrice,
          reasoning = ''Based on standard market rates for second-hand clothing (typically 40-60% of new price)'',
          market_comparison = ''Similar to other pre-owned items in the market'',
          confidence_score = literal (6 / 10),
          factors = [''brand reputation'', ''general condition'', ''market demand'']\<rparr>)"

record gemini_json =
  gj_suggested_price :: "number option"
  gj_reasoning :: "string option"
  gj_market_comparison :: "string option"
  gj_confidence_score :: "number option"
  gj_factors :: "string list option"

definition json_match :: "string \<Rightarrow> string option" where
  \<comment> \<open>\<^verbatim>\<open>text.match(/\{[\s\S]*\}/)\<close>: from the first opening brace to the last closing one\<close>
  "json_match text =
     (let from_brace = dropWhile (\<lambda>c. c \<noteq> CHR ''{'') text;
          to_brace = rev (dropWhile (\<lambda>c. c \<noteq> CHR ''}'') (rev from_brace))
      in if to_brace = [] then None else Some to_brace)"

definition parseGeminiResponse ::
  "(string \<Rightarrow> gemini_json option) \<Rightarrow> string option \<Rightarrow> price_suggestion" where
  "parseGeminiResponse json_parse response_text =
     (let text = (case response_text of None \<Rightarrow> [] | Some t \<Rightarrow> t)
      in case json_match text of
           None \<Rightarrow> fallbackPriceSuggestion no_details None
         | Some jsonMatch \<Rightarrow>
             (case json_parse jsonMatch of
                None \<Rightarrow> fallbackPriceSuggestion no_details None
              | Some parsed \<Rightarrow>
                  \<lparr>suggested_price = number_or (gj_suggested_price parsed) 500,
                   reasoning = string_or (gj_reasoning parsed) ''Based on market analysis'',
                   market_comparison =
                     string_or (gj_market_comparison parsed) ''Comparable to similar items'',
                   confidence_score = number_or (gj_confidence_score parsed) (literal (7 / 10)),
                   factors =
                     (case gj_factors parsed of
                        None \<Rightarrow> [''brand'', ''condition'', ''market demand''] | Some fs \<Rightarrow> fs)\<rparr>))"

datatype gemini_call = CallFailed | Responded "string option"

definition suggestPrice ::
  "string \<Rightarrow> (string \<Rightarrow> gemini_json option) \<Rightarrow> gemini_call \<Rightarrow> product_details
     \<Rightarrow> price_suggestion" where
  "suggestPrice apiKey json_parse call productDetails =
     (if apiKey = [] then fallbackPriceSuggestion productDetails None
      else case call of
             CallFailed \<Rightarrow> fallbackPriceSuggestion productDetails None
           | Responded text \<Rightarrow> parseGeminiResponse json_parse text)"

definition suggestPriceWithSerp ::
  "string \<Rightarrow> (string \<Rightarrow> gemini_json option) \<Rightarrow> gemini_call \<Rightarrow> product_details
     \<Rightarrow> serp_prices option \<Rightarrow> price_suggestion" where
  "suggestPriceWithSerp apiKey json_parse call productDetails serpPrices =
     (if apiKey = [] then fallbackPriceSuggestion productDetails serpPrices
      else case call of
             CallFailed \<Rightarrow> fallbackPriceSuggestion productDetails serpPrices
           | Responded text \<Rightarrow> parseGeminiResponse json_parse text)"

subsection \<open>The server as a transition system\<close>

text \<open>
  The requests that write to the two collections, and the databases the server can be in
  after any sequence of them, starting from empty collections. The two routes that insert an
  order (\<^verbatim>\<open>/create-order\<close>, \<^verbatim>\<open>/test-order\<close>) take the cart from the request body; here they
  store whatever order they are given, in status \<^verbatim>\<open>created\<close> and with no payment reference,
  which allows at least every order the routes can write.
\<close>

definition create_order :: "order \<Rightarrow> db \<Rightarrow> response \<times> db" where
  "create_order ord d =
     (reply 200 ''order created'',
      d\<lparr>orders := orders d @ [ord\<lparr>order_status := Created, razorpayPaymentId := None\<rparr>]\<rparr>)"

datatype request =
    Submit bool fault "user option" submit_request "ai_analysis option" string
  | AcceptOffer fault "user option" string "string option" "string option"
  | RejectOffer fault "user option" string "string option"
  | AdminReview fault "user option" string review_body nat
  | EditPrice fault "user option" string jsval jsval
  | CreateOrder order
  | Verify fault verify_request
  | CompleteOrder fault "user option" string

fun handle :: "env \<Rightarrow> request \<Rightarrow> db \<Rightarrow> response \<times> db" where
  "handle e (Submit cloud flt caller rq analysis new_id) d = submit cloud flt caller rq analysis new_id d"
| "handle e (AcceptOffer flt caller pid pickup payment) d = accept_offer flt caller pid pickup payment d"
| "handle e (RejectOffer flt caller pid reason) d = reject_offer flt caller pid reason d"
| "handle e (AdminReview flt caller pid body now) d = adminReview e flt caller pid body now d"
| "handle e (EditPrice flt caller pid p mrp) d = editPrice e flt caller pid p mrp d"
| "handle e (CreateOrder ord) d = create_order ord d"
| "handle e (Verify flt rq) d = verify e flt rq d"
| "handle e (CompleteOrder flt caller oid) d = complete_order e flt caller oid d"

definition empty_db :: db where
  "empty_db = \<lparr>orders = [], products = Map.empty\<rparr>"

inductive reachable :: "env \<Rightarrow> db \<Rightarrow> bool" for e :: env where
  reachable_empty: "reachable e empty_db"
| reachable_step: "reachable e d \<Longrightarrow> reachable e (snd (handle e rq d))"

fun run :: "env \<Rightarrow> request list \<Rightarrow> db \<Rightarrow> db" where
  "run e [] d = d"
| "run e (rq # rqs) d = run e rqs (snd (handle e rq d))"

definition listing_ok :: "product \<Rightarrow> bool" where
  \<comment> \<open>what the status of a product says about its snapshot and its review\<close>
  "listing_ok p =
     ((status p = Listed \<longrightarrow>
         title (listed_product p) \<noteq> None \<and> description (listed_product p) \<noteq> None
         \<and> lp_category (listed_product p) \<noteq> None \<and> listed_at (listed_product p) \<noteq> None
         \<and> lp_mainCategory (listed_product p) \<noteq> None \<and> reviewed_at (admin_review p) \<noteq> None)
      \<and> (status p = Pending \<or> status p = Approved \<longrightarrow> listed_product p = no_listing))"

definition db_ok :: "db \<Rightarrow> bool" where
  "db_ok d = (\<forall>k p. products d k = Some p \<longrightarrow> listing_ok p)"

subsection \<open>Concrete inputs\<close>

text \<open>
  An environment and a small database on which the handlers are evaluated. The stand-in for
  the HMAC joins key and message; the identifier test is the one of the driver on strings of
  24 characters, which must all be hexadecimal digits, and the identifier of such a string
  is written in lower case, as the driver prints it. The stand-in for \<^verbatim>\<open>ToNumber\<close> agrees with
  it on the empty string and on strings of decimal digits; the stand-in for the number cast
  stores what such a string converts to.
\<close>

definition hex_digit :: "char \<Rightarrow> bool" where
  "hex_digit c = (c \<in> set ''0123456789abcdefABCDEF'')"

definition hex24 :: "string \<Rightarrow> bool" where
  "hex24 s = (length s = 24 \<and> list_all hex_digit s)"

definition decimal :: "string \<Rightarrow> jsnum" where
  "decimal s =
     (if list_all (\<lambda>c. c \<in> set ''0123456789'') s
      then Fin (of_nat (foldl (\<lambda>n c. 10 * n + (of_char c - 48)) 0 s))
      else NaN)"

definition toy_cast :: "jsval \<Rightarrow> number option option" where
  "toy_cast v =
     (case v of
        JStr s \<Rightarrow>
          if s = [] then Some None
          else (case decimal s of Fin x \<Rightarrow> Some (Some x) | _ \<Rightarrow> None)
      | JBool b \<Rightarrow> Some (Some (if b then 1 else 0))
      | JNum x \<Rightarrow> Some (Some x)
      | JObj s \<Rightarrow> None
      | _ \<Rightarrow> Some None)"

definition toy_percentage :: "jsval \<Rightarrow> jsval \<Rightarrow> jsnum" where
  "toy_percentage mrp p =
     (case (to_number decimal mrp, to_number decimal p) of
        (Fin m, Fin x) \<Rightarrow>
          if 0 < x \<and> x < m then Fin (Math_round (js_mul (js_div (js_sub m x) m) 100)) else NaN
      | _ \<Rightarrow> NaN)"

definition toy_env :: env where
  "toy_env =
     \<lparr>key_secret = ''k'', hmac_sha256_hex = (\<lambda>key msg. key @ ''#'' @ msg), isValid = hex24,
      objectId = toLowerCase, toNumber = decimal, mongoose_number = toy_cast,
      js_percentage = toy_percentage\<rparr>"

definition toy_analysis :: ai_analysis where
  "toy_analysis =
     \<lparr>image_analysis =
        \<lparr>caption = ''Detected as: jersey'', quality = Good, ia_category = ''Tops'',
         brand_detected = None, colors_detected = None, condition_score = 7,
         features = [''jersey'']\<rparr>,
      price_suggestion =
        \<lparr>suggested_price = 800, reasoning = ''Based on standard market rates'',
         market_comparison = ''Similar to other pre-owned items in the market'',
         confidence_score = literal (6 / 10), factors = [''brand reputation'']\<rparr>,
      final_recommendation = ''Low confidence recommendation''\<rparr>"

definition toy_product :: "status \<Rightarrow> product" where
  \<comment> \<open>a submitted product as \<^verbatim>\<open>/submit\<close> stores it, in the given status\<close>
  "toy_product st =
     \<lparr>seller = ''u1'', article = ''shirt'', brand = ''Nike'', category = ''Tops'',
      gender = Some ''male'', size_label = None, age = None, wear_count = None, damage = None,
      images = [''uploads/a.png''], ai_analysis = toy_analysis, status = st,
      admin_review = new_review, pickup_details = None, payment_details = None,
      listed_product = no_listing, mainCategory = None\<rparr>"

definition toy_listing :: listed_product where
  "toy_listing =
     \<lparr>title = Some ''Nike shirt'',
      description = Some ''Detected as: jersey. Based on standard market rates'',
      price = Some 650, lp_mrp = Some 1000, lp_discount_percentage = Some 35,
      lp_category = Some ''Tops'', tags = [''Nike'', ''shirt'', ''male'', ''good'', ''jersey''],
      listed_at = Some 1, lp_mainCategory = Some ''Men''\<rparr>"

definition toy_review :: admin_review where
  "toy_review =
     \<lparr>final_price = Some 650, ar_mrp = Some 1000, ar_discount_percentage = Some 35,
      pricing_type = Some ''fixed'', admin_notes = None, reviewed_by = Some ''admin'',
      reviewed_at = Some 1\<rparr>"

definition listed_toy :: "status \<Rightarrow> product" where
  \<comment> \<open>the product after the seller accepted the offer and the admin approved, in the given status\<close>
  "listed_toy st =
     (toy_product st)\<lparr>admin_review := toy_review, listed_product := toy_listing,
                       pickup_details := Some ''12 Park Street'', payment_details := Some ''seller@upi'',
                       mainCategory := Some ''Men''\<rparr>"

definition pid_a :: string where
  "pid_a = ''68773d5ccb4a8235f64ebe23''"

definition pid_b :: string where
  "pid_b = ''68773d5ccb4a8235f64ebe24''"

definition toy_item :: "string \<Rightarrow> cart_item" where
  "toy_item k =
     \<lparr>productId = k, item_name = ''item'', item_price = ''650'', quantity = 1, item_image = None\<rparr>"

definition toy_order :: order where
  \<comment> \<open>a cart with a listed product, a product that is still pending, and a catalogue entry\<close>
  "toy_order =
     \<lparr>order_key = ''o1'', buyer = ''u2'', cart = [toy_item pid_a, toy_item pid_b, toy_item ''static-1''],
      amount = 1329, order_status = Created, razorpayOrderId = ''order_1'',
      razorpayPaymentId = None\<rparr>"

definition second_order :: order where
  \<comment> \<open>a cart with the pending product alone\<close>
  "second_order =
     \<lparr>order_key = ''o2'', buyer = ''u2'', cart = [toy_item pid_b],
      amount = 679, order_status = Created, razorpayOrderId = ''order_2'',
      razorpayPaymentId = None\<rparr>"

definition toy_db :: db where
  "toy_db =
     \<lparr>orders = [toy_order, second_order],
      products = [pid_a \<mapsto> listed_toy Listed, pid_b \<mapsto> toy_product Pending]\<rparr>"

definition pid_a_upper :: string where
  \<comment> \<open>the identifier of \<open>pid_a\<close>, spelled with capital digits\<close>
  "pid_a_upper = ''68773D5CCB4A8235F64EBE23''"

definition mixed_order :: order where
  \<comment> \<open>a cart with a product under another spelling of its identifier, and a catalogue entry\<close>
  "mixed_order =
     \<lparr>order_key = ''o3'', buyer = ''u3'', cart = [toy_item pid_a_upper, toy_item ''static-1''],
      amount = 679, order_status = Created, razorpayOrderId = ''order_3'',
      razorpayPaymentId = None\<rparr>"

definition mixed_db :: db where
  "mixed_db = toy_db\<lparr>orders := orders toy_db @ [mixed_order]\<rparr>"

definition mixed_request :: verify_request where
  "mixed_request = \<lparr>order_id = ''order_3'', payment_id = ''pay_3'', signature = ''k#order_3|pay_3''\<rparr>"

definition good_request :: verify_request where
  "good_request = \<lparr>order_id = ''order_1'', payment_id = ''pay_1'', signature = ''k#order_1|pay_1''\<rparr>"

definition admin :: user where
  "admin = \<lparr>user_key = ''admin'', email = ''retagcontact00@gmail.com''\<rparr>"

definition seller_u1 :: user where
  "seller_u1 = \<lparr>user_key = ''u1'', email = ''seller@example.com''\<rparr>"

definition toy_submission :: submit_request where
  "toy_submission =
     \<lparr>sr_article = ''shirt'', sr_brand = ''Nike'', sr_category = ''Tops'', sr_gender = Some ''male'',
      sr_size = None, sr_age = None, sr_wear_count = None, sr_damage = None,
      sr_files = [\<lparr>mimetype = ''image/png'', path = ''/tmp/a.png'', filename = ''a.png''\<rparr>],
      sr_image_readable = True\<rparr>"

definition approve_body :: review_body where
  "approve_body =
     \<lparr>rb_final_price = JNum 650, rb_mrp = JNum 1000, rb_discount_percentage = JNum 35,
      rb_pricing_type = None, rb_admin_notes = None, rb_action = Some ''approve''\<rparr>"

definition reject_body :: review_body where
  "reject_body =
     \<lparr>rb_final_price = JAbsent, rb_mrp = JAbsent, rb_discount_percentage = JAbsent,
      rb_pricing_type = None, rb_admin_notes = Some ''withdrawn'', rb_action = Some ''reject''\<rparr>"

definition toy_run :: "request list" where
  \<comment> \<open>the requests that lead from the empty database to \<open>toy_db\<close>\<close>
  "toy_run =
     [Submit False no_fault (Some seller_u1) toy_submission (Some toy_analysis) pid_a,
      AcceptOffer no_fault (Some seller_u1) pid_a (Some ''12 Park Street'') (Some ''seller@upi''),
      AdminReview no_fault (Some admin) pid_a approve_body 1,
      Submit False no_fault (Some seller_u1) toy_submission (Some toy_analysis) pid_b,
      CreateOrder toy_order,
      CreateOrder second_order]"

definition accepted_toy :: product where
  \<comment> \<open>the submitted product after its seller accepted the offer\<close>
  "accepted_toy =
     (toy_product Approved)\<lparr>pickup_details := Some ''12 Park Street'',
                             payment_details := Some ''seller@upi''\<rparr>"

definition approved_db :: db where
  \<comment> \<open>the database after the first two requests of \<open>toy_run\<close>: one product awaiting review\<close>
  "approved_db = \<lparr>orders = [], products = [pid_a \<mapsto> accepted_toy]\<rparr>"

definition paid_db :: db where
  \<comment> \<open>\<open>toy_db\<close> after the payment of its order was verified\<close>
  "paid_db = snd (verify toy_env no_fault good_request toy_db)"

definition nike_details :: product_details where
  "nike_details = no_details\<lparr>pd_brand := Some ''Nike''\<rparr>"

definition reference :: serp_prices where
  "reference = \<lparr>serp_min = 1000, serp_max = 2000, serp_avg = 1500\<rparr>"

definition write_failure :: fault where
  \<comment> \<open>the product update of \<^verbatim>\<open>/verify\<close> throws after one document\<close>
  "write_failure = \<lparr>throws_at = Some 2, written = 1, thrown = ''connection lost''\<rparr>"

subsection \<open>Numbers: theorems\<close>

text \<open>
  The rounding is the one intended: \<open>binary_exponent\<close> brackets its argument between two
  powers of two, a value with a significand of at most 53 bits is left as it is (so whole
  amounts below \<open>2 ^ 53\<close> are subtracted exactly), and the result of rounding is within half
  a unit in the last place.
\<close>

lemma log2_int_bounds:
  "1 \<le> n \<Longrightarrow> 0 \<le> log2_int n \<and> 2 ^ nat (log2_int n) \<le> n \<and> n < 2 * 2 ^ nat (log2_int n)"
proof (induction n rule: log2_int.induct)
  case (1 n)
  show ?case
  proof (cases "n < 2")
    case True
    with "1.prems" have "n = 1" by simp
    then show ?thesis
      by (simp add: log2_int.simps [of 1])
  next
    case False
    then have half: "1 \<le> n div 2" by simp
    from "1.IH" [OF False half]
    have ih: "0 \<le> log2_int (n div 2)" "2 ^ nat (log2_int (n div 2)) \<le> n div 2"
      "n div 2 < 2 * 2 ^ nat (log2_int (n div 2))"
      by simp_all
    have eq: "log2_int n = 1 + log2_int (n div 2)"
      using False by (simp add: log2_int.simps [of n])
    have n: "nat (1 + log2_int (n div 2)) = Suc (nat (log2_int (n div 2)))"
      using ih(1) by simp
    show ?thesis
      unfolding eq n using ih by auto
  qed
qed

lemma pow2_powi: "pow2 e = 2 powi e"
  by (simp add: pow2_def power_int_def inverse_eq_divide power_one_over)

lemma pow2_pos: "0 < pow2 e"
  by (simp add: pow2_powi)

lemma pow2_nat: "0 \<le> k \<Longrightarrow> pow2 k = 2 ^ nat k"
  by (simp add: pow2_def)

lemma pow2_Suc: "pow2 (e + 1) = 2 * pow2 e"
  by (simp add: pow2_powi power_int_add)

lemma pow2_diff: "pow2 (a - b) = pow2 a / pow2 b"
  by (simp add: pow2_powi power_int_diff)

lemma binary_exponent_bounds:
  assumes "0 < x"
  shows "pow2 (binary_exponent x) \<le> x \<and> x < 2 * pow2 (binary_exponent x)"
proof -
  obtain p q where pq: "quotient_of x = (p, q)"
    by (cases "quotient_of x")
  then have q: "0 < q" and x: "x = of_int p / of_int q"
    using quotient_of_denom_pos quotient_of_div by blast+
  from assms x q have p: "0 < p"
    by (simp add: zero_less_divide_iff)
  let ?lp = "log2_int p" and ?lq = "log2_int q"
  from log2_int_bounds [of p] p
  have lp: "0 \<le> ?lp" "2 ^ nat ?lp \<le> p" "p < 2 * 2 ^ nat ?lp" by simp_all
  from log2_int_bounds [of q] q
  have lq: "0 \<le> ?lq" "2 ^ nat ?lq \<le> q" "q < 2 * 2 ^ nat ?lq" by simp_all
  have P: "pow2 ?lp \<le> of_int p" "of_int p < 2 * pow2 ?lp"
  proof -
    have "(of_int (2 ^ nat ?lp) :: rat) \<le> of_int p"
      using lp(2) by (simp only: of_int_le_iff)
    then show "pow2 ?lp \<le> of_int p"
      by (simp add: pow2_nat lp(1))
    have "(of_int p :: rat) < of_int (2 * 2 ^ nat ?lp)"
      using lp(3) by (simp only: of_int_less_iff)
    then show "of_int p < 2 * pow2 ?lp"
      by (simp add: pow2_nat lp(1))
  qed
  have Q: "pow2 ?lq \<le> of_int q" "of_int q < 2 * pow2 ?lq"
  proof -
    have "(of_int (2 ^ nat ?lq) :: rat) \<le> of_int q"
      using lq(2) by (simp only: of_int_le_iff)
    then show "pow2 ?lq \<le> of_int q"
      by (simp add: pow2_nat lq(1))
    have "(of_int q :: rat) < of_int (2 * 2 ^ nat ?lq)"
      using lq(3) by (simp only: of_int_less_iff)
    then show "of_int q < 2 * pow2 ?lq"
      by (simp add: pow2_nat lq(1))
  qed
  let ?e = "?lp - ?lq"
  have qpos: "(0::rat) < of_int q" using q by simp
  have upper: "x < 2 * pow2 ?e"
  proof -
    have "x < 2 * pow2 ?lp / of_int q"
      unfolding x using P(2) qpos by (simp add: divide_strict_right_mono)
    also have "\<dots> \<le> 2 * pow2 ?lp / pow2 ?lq"
      using Q(1) pow2_pos [of ?lp] pow2_pos [of ?lq] by (simp add: frac_le)
    finally show ?thesis
      by (simp add: pow2_diff)
  qed
  have lower: "pow2 (?e - 1) < x"
  proof -
    have "pow2 (?e - 1) = pow2 ?e / 2"
      using pow2_Suc [of "?e - 1"] by simp
    also have "\<dots> = pow2 ?lp / (2 * pow2 ?lq)"
      by (simp add: pow2_diff [of ?lp ?lq])
    also have "\<dots> < pow2 ?lp / of_int q"
      using Q(2) pow2_pos [of ?lp] qpos by (simp add: frac_less2)
    also have "\<dots> \<le> x"
      unfolding x using P(1) qpos by (simp add: divide_right_mono)
    finally show ?thesis .
  qed
  have be: "binary_exponent x = (if pow2 ?e \<le> x then ?e else ?e - 1)"
    by (simp add: binary_exponent_def pq Let_def)
  show ?thesis
  proof (cases "pow2 ?e \<le> x")
    case True
    with upper be show ?thesis by simp
  next
    case False
    then have "x < pow2 ?e" by simp
    moreover have "pow2 ?e = 2 * pow2 (?e - 1)"
      using pow2_Suc [of "?e - 1"] by simp
    ultimately show ?thesis
      using be False lower by simp
  qed
qed

lemma pow2_less_imp: "pow2 a < pow2 b \<Longrightarrow> a < b"
proof (rule ccontr)
  assume "pow2 a < pow2 b" and "\<not> a < b"
  then have "b \<le> a" by simp
  then have "pow2 b \<le> pow2 a"
    unfolding pow2_powi by (rule power_int_increasing) simp
  with \<open>pow2 a < pow2 b\<close> show False by simp
qed

lemma pow2_add: "pow2 (a + b) = pow2 a * pow2 b"
  by (simp add: pow2_powi power_int_add)

lemma round_ties_even_int: "round_ties_even (of_int n) = n"
  by (simp add: round_ties_even_def)

lemma round_ties_even_near: "\<bar>of_int (round_ties_even x) - x\<bar> \<le> 1 / 2"
proof -
  have "of_int \<lfloor>x\<rfloor> \<le> x" "x < of_int \<lfloor>x\<rfloor> + 1"
    by linarith+
  then show ?thesis
    by (auto simp: round_ties_even_def Let_def)
qed

text \<open>Rounding leaves a value with a significand of at most 53 bits as it is.\<close>

lemma fl_exact:
  assumes "\<bar>n\<bar> < 2 ^ 53"
  shows "fl (of_int n * pow2 k) = of_int n * pow2 k"
proof (cases "n = 0")
  case True
  then show ?thesis by (simp add: fl_def)
next
  case False
  let ?x = "of_int n * pow2 k :: rat"
  let ?a = "\<bar>?x\<bar>"
  have a: "?a = of_int \<bar>n\<bar> * pow2 k"
    using pow2_pos [of k] by (simp add: abs_mult)
  have apos: "0 < ?a"
    using False pow2_pos [of k] by simp
  let ?e = "binary_exponent ?a"
  from binary_exponent_bounds [OF apos] have lo: "pow2 ?e \<le> ?a"
    by simp
  have "(of_int \<bar>n\<bar> :: rat) < of_int (2 ^ 53)"
    using assms by (simp only: of_int_less_iff)
  then have "?a < pow2 53 * pow2 k"
    unfolding a using pow2_pos [of k] by (simp add: pow2_def)
  then have "pow2 ?e < pow2 (53 + k)"
    using lo by (simp add: pow2_add)
  then have m: "0 \<le> k - ?e + 52"
    using pow2_less_imp by fastforce
  have "?a / pow2 (?e - 52) = of_int \<bar>n\<bar> * (pow2 k / pow2 (?e - 52))"
    by (simp add: a)
  also have "pow2 k / pow2 (?e - 52) = pow2 (k - ?e + 52)"
    using pow2_diff [of k "?e - 52"] by (simp add: algebra_simps)
  also have "\<dots> = of_int (2 ^ nat (k - ?e + 52))"
    using m by (simp add: pow2_nat)
  finally have q: "?a / pow2 (?e - 52) = of_int (\<bar>n\<bar> * 2 ^ nat (k - ?e + 52))"
    by simp
  have "fl ?x = sgn ?x * of_int (round_ties_even (?a / pow2 (?e - 52))) * pow2 (?e - 52)"
    using apos by (simp add: fl_def Let_def)
  also have "\<dots> = sgn ?x * (?a / pow2 (?e - 52)) * pow2 (?e - 52)"
    by (simp only: q round_ties_even_int)
  also have "\<dots> = sgn ?x * ?a"
    using pow2_pos [of "?e - 52"] by simp
  also have "\<dots> = ?x"
    by (simp add: sgn_mult_abs)
  finally show ?thesis .
qed

lemma fl_int: "\<bar>n\<bar> < 2 ^ 53 \<Longrightarrow> fl (of_int n) = of_int n"
  using fl_exact [of n 0] by (simp add: pow2_def)

lemma js_sub_int:
  "\<bar>m - p\<bar> < 2 ^ 53 \<Longrightarrow> js_sub (of_int m) (of_int p) = of_int (m - p)"
  using fl_int [of "m - p"] by (simp add: js_sub_def)

text \<open>The result of rounding is within half a unit in the last place.\<close>

lemma fl_near:
  assumes "x \<noteq> 0"
  shows "\<bar>fl x - x\<bar> \<le> pow2 (binary_exponent \<bar>x\<bar> - 52) / 2"
proof -
  let ?a = "\<bar>x\<bar>"
  let ?u = "pow2 (binary_exponent ?a - 52)"
  have u: "0 < ?u" by (rule pow2_pos)
  let ?r = "of_int (round_ties_even (?a / ?u)) :: rat"
  have flx: "fl x = sgn x * ?r * ?u"
    using assms by (simp add: fl_def Let_def)
  have sx: "sgn x * ?a = x"
    by (rule sgn_mult_abs)
  have "fl x - x = sgn x * ?r * ?u - sgn x * ?a"
    by (simp only: flx sx)
  also have "\<dots> = sgn x * (?r * ?u - ?a)"
    by (simp add: algebra_simps)
  also have "?r * ?u - ?a = (?r - ?a / ?u) * ?u"
    using u by (simp add: left_diff_distrib)
  finally have "\<bar>fl x - x\<bar> = \<bar>sgn x\<bar> * \<bar>?r - ?a / ?u\<bar> * ?u"
    using u by (simp add: abs_mult)
  also have "\<dots> = \<bar>?r - ?a / ?u\<bar> * ?u"
    using assms by (simp add: abs_sgn_eq)
  also have "\<dots> \<le> (1 / 2) * ?u"
    using round_ties_even_near [of "?a / ?u"] u by (intro mult_right_mono) simp_all
  finally show ?thesis by simp
qed

subsection \<open>Settlement: theorems\<close>

lemma updateMany_sold_Nil: "updateMany_sold [] ps = ps"
  by (simp add: updateMany_sold_def)

lemma updateMany_sold_idem: "updateMany_sold ids (updateMany_sold ids ps) = updateMany_sold ids ps"
  by (rule ext) (simp add: updateMany_sold_def option.map_comp comp_def)

lemma updateMany_sold_absorb:
  "set ids' \<subseteq> set ids \<Longrightarrow> updateMany_sold ids (updateMany_sold ids' ps) = updateMany_sold ids ps"
  by (rule ext) (auto simp: updateMany_sold_def option.map_comp comp_def)

lemma updateMany_sold_apply:
  "updateMany_sold ids ps k =
     (if k \<in> set ids then map_option (\<lambda>p. p\<lparr>status := Sold\<rparr>) (ps k) else ps k)"
  by (simp add: updateMany_sold_def)

text \<open>The references that \<^verbatim>\<open>/verify\<close> keeps all cast: its product update has no \<^verbatim>\<open>CastError\<close>.\<close>

lemma cast_ids_valid:
  "cast_ids e (filter (\<lambda>k. isValid e k \<and> length k = 24) ids) =
     Some (map (objectId e) (filter (\<lambda>k. isValid e k \<and> length k = 24) ids))"
  by (simp add: cast_ids_def list_all_iff)


lemma findOne_after_paid:
  "findOne_order rid (findOneAndUpdate_paid rid pid os) =
     map_option (\<lambda>x. x\<lparr>order_status := Paid, razorpayPaymentId := Some pid\<rparr>) (findOne_order rid os)"
  by (induction os) auto

lemma findOneAndUpdate_paid_idem:
  "findOneAndUpdate_paid rid pid (findOneAndUpdate_paid rid pid os) = findOneAndUpdate_paid rid pid os"
  by (induction os) auto

lemma findById_after_paid:
  "findById_order k (findByIdAndUpdate_paid k pid os) =
     map_option (\<lambda>x. x\<lparr>order_status := Paid, razorpayPaymentId := Some pid\<rparr>) (findById_order k os)"
  by (induction os) auto

text \<open>The run of \<^verbatim>\<open>/verify\<close> in which the signature matches, the order exists and no call throws.\<close>

lemma verify_ok:
  assumes sig: "signature rq = hmac_sha256_hex e (key_secret e) (order_id rq @ ''|'' @ payment_id rq)"
    and found: "findOne_order (order_id rq) (orders d) = Some order"
    and nf: "throws_at flt = None"
  shows "verify e flt rq d =
           (reply_success 200 True ''Payment has been verified'',
            d\<lparr>orders := findOneAndUpdate_paid (order_id rq) (payment_id rq) (orders d),
              products := updateMany_sold
                 (map (objectId e)
                    (filter (\<lambda>k. isValid e k \<and> length k = 24) (map productId (cart order))))
                 (products d)\<rparr>)"
proof (cases "filter (\<lambda>k. isValid e k \<and> length k = 24) (map productId (cart order)) = []")
  case True
  then show ?thesis
    using assms by (simp add: verify_def Let_def throws_def updateMany_sold_Nil)
next
  case False
  then show ?thesis
    using assms by (simp add: verify_def Let_def throws_def cast_ids_valid)
qed

text \<open>The run in which the product update throws.\<close>

lemma verify_update_throws:
  assumes sig: "signature rq = hmac_sha256_hex e (key_secret e) (order_id rq @ ''|'' @ payment_id rq)"
    and found: "findOne_order (order_id rq) (orders d) = Some order"
    and some: "filter (\<lambda>k. isValid e k \<and> length k = 24) (map productId (cart order)) \<noteq> []"
    and thr: "throws_at flt = Some 2"
  shows "verify e flt rq d =
           (server_error flt,
            d\<lparr>orders := findOneAndUpdate_paid (order_id rq) (payment_id rq) (orders d),
              products := updateMany_sold
                 (take (written flt)
                    (map (objectId e)
                       (filter (\<lambda>k. isValid e k \<and> length k = 24) (map productId (cart order)))))
                 (products d)\<rparr>)"
  using assms by (simp add: verify_def Let_def throws_def cast_ids_valid)



text \<open>The concrete request, order and cart.\<close>

lemma toy_sig:
  "signature good_request =
     hmac_sha256_hex toy_env (key_secret toy_env) (order_id good_request @ ''|'' @ payment_id good_request)"
  by (simp add: good_request_def toy_env_def)

lemma toy_found: "findOne_order (order_id good_request) (orders toy_db) = Some toy_order"
  by (simp add: good_request_def toy_db_def toy_order_def)

lemma toy_valid_ids:
  "filter (\<lambda>k. isValid toy_env k \<and> length k = 24) (map productId (cart toy_order)) = [pid_a, pid_b]"
  by (simp add: toy_env_def toy_order_def toy_item_def pid_a_def pid_b_def hex24_def hex_digit_def)

lemma toy_object_ids:
  "objectId toy_env pid_a = pid_a" "objectId toy_env pid_b = pid_b"
  "objectId toy_env pid_a_upper = pid_a"
  by (simp_all add: toy_env_def toLowerCase_def toLowerCase_char_def pid_a_def pid_b_def
      pid_a_upper_def)

lemma toy_verify:
  "verify toy_env no_fault good_request toy_db =
     (reply_success 200 True ''Payment has been verified'',
      toy_db\<lparr>orders := findOneAndUpdate_paid ''order_1'' ''pay_1'' (orders toy_db),
             products := updateMany_sold [pid_a, pid_b] (products toy_db)\<rparr>)"
  using verify_ok [OF toy_sig toy_found, of no_fault]
  by (simp add: toy_valid_ids toy_object_ids no_fault_def good_request_def)


text \<open>
  The admin override on the cart with a catalogue entry: the reference \<^verbatim>\<open>static-1\<close> does not
  cast, the product update throws, and the answer is 500 with the order already paid and no
  product written.
\<close>

lemma toy_complete_static:
  "complete_order toy_env no_fault (Some admin) ''o1'' toy_db =
     (reply_success 500 False ''Error completing order'',
      toy_db\<lparr>orders := findByIdAndUpdate_paid ''o1'' ''manual_verification'' (orders toy_db)\<rparr>)"
proof -
  have v: "\<not> isValid toy_env ''static-1''"
    by (simp add: toy_env_def hex24_def)
  have c: "cast_ids toy_env [pid_a, pid_b, ''static-1''] = None"
    by (simp add: cast_ids_def v)
  have f: "findById_order ''o1'' (orders toy_db) = Some toy_order"
    by (simp add: toy_db_def toy_order_def)
  show ?thesis
    by (simp add: complete_order_def admin_def admin_email_def no_fault_def throws_def f c
        toy_order_def toy_item_def Let_def)
qed

text \<open>
  C2. When the signature sent with the request is not the HMAC-SHA256 of
  \<^verbatim>\<open>order_id|payment_id\<close> under the shared secret, \<^verbatim>\<open>/verify\<close> answers 400 with
  \<^verbatim>\<open>success: false\<close> and the signature-mismatch message, and the database is the one it was
  given: no order and no product is touched, whatever the database calls would have done.
\<close>

theorem verify_signature_mismatch:
  assumes "signature rq \<noteq> hmac_sha256_hex e (key_secret e) (order_id rq @ ''|'' @ payment_id rq)"
  shows "verify e flt rq d =
           (reply_success 400 False ''Payment verification failed - signature mismatch'', d)"
  using assms by (auto simp: verify_def Let_def)

theorem verify_signature_mismatch_witness:
  "signature (good_request\<lparr>signature := ''forged''\<rparr>)
     \<noteq> hmac_sha256_hex toy_env (key_secret toy_env)
         (order_id (good_request\<lparr>signature := ''forged''\<rparr>) @ ''|''
          @ payment_id (good_request\<lparr>signature := ''forged''\<rparr>))
   \<and> verify toy_env no_fault (good_request\<lparr>signature := ''forged''\<rparr>) toy_db =
       (reply_success 400 False ''Payment verification failed - signature mismatch'', toy_db)"
proof -
  have h: "signature (good_request\<lparr>signature := ''forged''\<rparr>)
     \<noteq> hmac_sha256_hex toy_env (key_secret toy_env)
         (order_id (good_request\<lparr>signature := ''forged''\<rparr>) @ ''|''
          @ payment_id (good_request\<lparr>signature := ''forged''\<rparr>))"
    by (simp add: good_request_def toy_env_def)
  show ?thesis
    using h verify_signature_mismatch [OF h, of no_fault toy_db] by simp
qed

text \<open>
  A delivery that failed part-way can be repeated: whatever call threw in the first attempt,
  a second attempt in which nothing throws ends in the state and the answer of a single
  clean run.
\<close>

lemma verify_outcomes:
  assumes sig: "signature rq = hmac_sha256_hex e (key_secret e) (order_id rq @ ''|'' @ payment_id rq)"
    and found: "findOne_order (order_id rq) (orders d) = Some order"
  shows "snd (verify e flt rq d) = d
         \<or> (\<exists>ids. set ids \<subseteq> set (map (objectId e)
                      (filter (\<lambda>k. isValid e k \<and> length k = 24) (map productId (cart order))))
              \<and> snd (verify e flt rq d) =
                  d\<lparr>orders := findOneAndUpdate_paid (order_id rq) (payment_id rq) (orders d),
                    products := updateMany_sold ids (products d)\<rparr>)"
proof -
  let ?valid = "filter (\<lambda>k. isValid e k \<and> length k = 24) (map productId (cart order))"
  let ?keys = "map (objectId e) ?valid"
  let ?paid = "findOneAndUpdate_paid (order_id rq) (payment_id rq) (orders d)"
  have t: "set (take (written flt) ?keys) \<subseteq> set ?keys"
    by (rule set_take_subset)
  have n: "d\<lparr>orders := ?paid\<rparr> = d\<lparr>orders := ?paid, products := updateMany_sold [] (products d)\<rparr>"
    by (simp add: updateMany_sold_Nil)
  consider (early) "throws flt 0 \<or> throws flt 1"
    | (nothing) "\<not> throws flt 0" "\<not> throws flt 1" "?valid = []"
    | (partial) "\<not> throws flt 0" "\<not> throws flt 1" "?valid \<noteq> []" "throws flt 2"
    | (whole) "\<not> throws flt 0" "\<not> throws flt 1" "?valid \<noteq> []" "\<not> throws flt 2"
    by blast
  then show ?thesis
  proof cases
    case early
    then show ?thesis
      using sig found by (auto simp: verify_def Let_def)
  next
    case nothing
    then have "snd (verify e flt rq d) = d\<lparr>orders := ?paid\<rparr>"
      using sig found by (simp add: verify_def Let_def)
    then have "snd (verify e flt rq d) =
        d\<lparr>orders := ?paid, products := updateMany_sold [] (products d)\<rparr>"
      using n by simp
    then show ?thesis
      by (intro disjI2 exI [of _ "[]"]) simp
  next
    case partial
    then have "snd (verify e flt rq d) =
        d\<lparr>orders := ?paid, products := updateMany_sold (take (written flt) ?keys) (products d)\<rparr>"
      using sig found by (simp add: verify_def Let_def cast_ids_valid)
    then show ?thesis
      using t by (intro disjI2 exI [of _ "take (written flt) ?keys"]) simp
  next
    case whole
    then have "snd (verify e flt rq d) =
        d\<lparr>orders := ?paid, products := updateMany_sold ?keys (products d)\<rparr>"
      using sig found by (auto simp: verify_def Let_def cast_ids_valid)
    then show ?thesis
      by (intro disjI2 exI [of _ ?keys]) simp
  qed
qed

lemma verify_retry:
  assumes sig: "signature rq = hmac_sha256_hex e (key_secret e) (order_id rq @ ''|'' @ payment_id rq)"
    and found: "findOne_order (order_id rq) (orders d) = Some order"
  shows "verify e no_fault rq (snd (verify e flt rq d)) = verify e no_fault rq d"
proof -
  let ?valid = "filter (\<lambda>k. isValid e k \<and> length k = 24) (map productId (cart order))"
  let ?keys = "map (objectId e) ?valid"
  let ?paid = "findOneAndUpdate_paid (order_id rq) (payment_id rq) (orders d)"
  have nf: "throws_at no_fault = None" by (simp add: no_fault_def)
  from verify_outcomes [OF sig found, of flt] show ?thesis
  proof (elim disjE exE conjE)
    assume "snd (verify e flt rq d) = d"
    then show ?thesis by simp
  next
    fix ids
    assume sub: "set ids \<subseteq> set ?keys"
      and eq: "snd (verify e flt rq d) = d\<lparr>orders := ?paid, products := updateMany_sold ids (products d)\<rparr>"
    let ?d' = "d\<lparr>orders := ?paid, products := updateMany_sold ids (products d)\<rparr>"
    have found': "findOne_order (order_id rq) (orders ?d') =
        Some (order\<lparr>order_status := Paid, razorpayPaymentId := Some (payment_id rq)\<rparr>)"
      by (simp add: findOne_after_paid found)
    show ?thesis
      unfolding eq verify_ok [OF sig found' nf] verify_ok [OF sig found nf]
      by (simp add: findOneAndUpdate_paid_idem updateMany_sold_absorb [OF sub])
  qed
qed

text \<open>
  C3. A payment confirmation delivered twice. When the signature matches and the order
  exists, the first delivery answers 200 and the second, which finds the order already paid,
  answers 200 as well and leaves the database exactly as the first one left it: the order is
  paid with the same payment reference, and every product whose identifier a well-formed
  cart reference casts to is sold, as after the first delivery. Marking the same products
  sold a second time changes nothing.
\<close>

theorem verify_idempotent:
  assumes sig: "signature rq = hmac_sha256_hex e (key_secret e) (order_id rq @ ''|'' @ payment_id rq)"
    and found: "findOne_order (order_id rq) (orders d) = Some order"
    and first: "verify e no_fault rq d = (r1, d1)"
    and second: "verify e no_fault rq d1 = (r2, d2)"
  shows "r1 = reply_success 200 True ''Payment has been verified'' \<and> r2 = r1 \<and> d2 = d1
         \<and> findOne_order (order_id rq) (orders d2) =
             Some (order\<lparr>order_status := Paid, razorpayPaymentId := Some (payment_id rq)\<rparr>)
         \<and> (\<forall>k p. k \<in> set (map productId (cart order)) \<and> isValid e k \<and> length k = 24
                \<and> products d (objectId e k) = Some p
                \<longrightarrow> products d2 (objectId e k) = Some (p\<lparr>status := Sold\<rparr>))
         \<and> (\<forall>ids. updateMany_sold ids (products d1) = updateMany_sold ids (updateMany_sold ids (products d1)))"
proof -
  have nf: "throws_at no_fault = None" by (simp add: no_fault_def)
  let ?valid = "filter (\<lambda>k. isValid e k \<and> length k = 24) (map productId (cart order))"
  let ?keys = "map (objectId e) ?valid"
  from verify_ok [OF sig found nf] first
  have r1: "r1 = reply_success 200 True ''Payment has been verified''"
    and d1: "d1 = d\<lparr>orders := findOneAndUpdate_paid (order_id rq) (payment_id rq) (orders d),
              products := updateMany_sold ?keys (products d)\<rparr>"
    by simp_all
  let ?paid = "order\<lparr>order_status := Paid, razorpayPaymentId := Some (payment_id rq)\<rparr>"
  have found1: "findOne_order (order_id rq) (orders d1) = Some ?paid"
    by (simp add: d1 findOne_after_paid found)
  from verify_ok [OF sig found1 nf] second
  have r2: "r2 = reply_success 200 True ''Payment has been verified''"
    and d2: "d2 = d1\<lparr>orders := findOneAndUpdate_paid (order_id rq) (payment_id rq) (orders d1),
              products := updateMany_sold ?keys (products d1)\<rparr>"
    by simp_all
  have same: "d2 = d1"
    by (simp add: d2 d1 findOneAndUpdate_paid_idem updateMany_sold_idem)
  have sold: "\<forall>k p. k \<in> set (map productId (cart order)) \<and> isValid e k \<and> length k = 24
                \<and> products d (objectId e k) = Some p
                \<longrightarrow> products d2 (objectId e k) = Some (p\<lparr>status := Sold\<rparr>)"
    by (auto simp: same d1 updateMany_sold_apply)
  show ?thesis
    using r1 r2 same found1 sold by (simp add: updateMany_sold_idem)
qed

theorem verify_idempotent_witness:
  "signature good_request =
     hmac_sha256_hex toy_env (key_secret toy_env) (order_id good_request @ ''|'' @ payment_id good_request)
   \<and> findOne_order (order_id good_request) (orders toy_db) = Some toy_order
   \<and> fst (verify toy_env no_fault good_request toy_db) = reply_success 200 True ''Payment has been verified''
   \<and> verify toy_env no_fault good_request (snd (verify toy_env no_fault good_request toy_db)) =
       (reply_success 200 True ''Payment has been verified'',
        snd (verify toy_env no_fault good_request toy_db))
   \<and> map_option status (products (snd (verify toy_env no_fault good_request toy_db)) pid_a) = Some Sold"
proof -
  obtain r2 d2 where
    second: "verify toy_env no_fault good_request (snd (verify toy_env no_fault good_request toy_db)) = (r2, d2)"
    by (cases "verify toy_env no_fault good_request (snd (verify toy_env no_fault good_request toy_db))")
  have first: "verify toy_env no_fault good_request toy_db =
                 (fst (verify toy_env no_fault good_request toy_db),
                  snd (verify toy_env no_fault good_request toy_db))"
    by simp
  note t = verify_idempotent [OF toy_sig toy_found first second]
  have a: "map_option status (products (snd (verify toy_env no_fault good_request toy_db)) pid_a) = Some Sold"
    unfolding toy_verify by (simp add: updateMany_sold_apply toy_db_def)
  show ?thesis
    using t toy_sig toy_found second a by simp
qed

text \<open>
  C4. A cart that mixes persisted and static references. When the signature matches, the
  order exists and no database call throws, \<^verbatim>\<open>/verify\<close> answers 200, the order is paid with
  the payment reference recorded, and the product collection changes at exactly the
  identifiers that the cart references passing the identifier test (\<^verbatim>\<open>ObjectId.isValid\<close> and
  24 characters) cast to: a product stored under such an identifier becomes sold, however
  the reference spells it, and under every other key the collection is as it was. A static
  reference fails the test, is never handed to the store, and raises no error.
\<close>

theorem verify_mixed_cart:
  assumes sig: "signature rq = hmac_sha256_hex e (key_secret e) (order_id rq @ ''|'' @ payment_id rq)"
    and found: "findOne_order (order_id rq) (orders d) = Some order"
    and nf: "throws_at flt = None"
  shows "\<exists>d'. verify e flt rq d = (reply_success 200 True ''Payment has been verified'', d')
           \<and> findOne_order (order_id rq) (orders d') =
               Some (order\<lparr>order_status := Paid, razorpayPaymentId := Some (payment_id rq)\<rparr>)
           \<and> (\<forall>k. products d' k =
                 (if k \<in> set (map (objectId e)
                              (filter (\<lambda>r. isValid e r \<and> length r = 24) (map productId (cart order))))
                  then map_option (\<lambda>p. p\<lparr>status := Sold\<rparr>) (products d k)
                  else products d k))"
  using verify_ok [OF sig found nf]
  by (simp add: findOne_after_paid found updateMany_sold_apply)

theorem verify_mixed_cart_witness:
  "signature mixed_request =
     hmac_sha256_hex toy_env (key_secret toy_env) (order_id mixed_request @ ''|'' @ payment_id mixed_request)
   \<and> findOne_order (order_id mixed_request) (orders mixed_db) = Some mixed_order
   \<and> throws_at no_fault = None
   \<and> map productId (cart mixed_order) = [pid_a_upper, ''static-1'']
   \<and> fst (verify toy_env no_fault mixed_request mixed_db) = reply_success 200 True ''Payment has been verified''
   \<and> map_option order_status
        (findOne_order ''order_3'' (orders (snd (verify toy_env no_fault mixed_request mixed_db)))) = Some Paid
   \<and> products mixed_db pid_a = Some (listed_toy Listed)
   \<and> products (snd (verify toy_env no_fault mixed_request mixed_db)) pid_a = Some (listed_toy Sold)
   \<and> products (snd (verify toy_env no_fault mixed_request mixed_db)) pid_b = Some (toy_product Pending)
   \<and> products (snd (verify toy_env no_fault mixed_request mixed_db)) pid_a_upper = None
   \<and> products (snd (verify toy_env no_fault mixed_request mixed_db)) ''static-1'' = None"
proof -
  have nf: "throws_at no_fault = None" by (simp add: no_fault_def)
  have sig: "signature mixed_request =
     hmac_sha256_hex toy_env (key_secret toy_env) (order_id mixed_request @ ''|'' @ payment_id mixed_request)"
    by (simp add: mixed_request_def toy_env_def)
  have found: "findOne_order (order_id mixed_request) (orders mixed_db) = Some mixed_order"
    by (simp add: mixed_request_def mixed_db_def toy_db_def toy_order_def second_order_def
        mixed_order_def)
  have c: "map productId (cart mixed_order) = [pid_a_upper, ''static-1'']"
    by (simp add: mixed_order_def toy_item_def)
  have keys: "map (objectId toy_env)
      (filter (\<lambda>r. isValid toy_env r \<and> length r = 24) (map productId (cart mixed_order))) = [pid_a]"
    unfolding c
    by (simp add: toy_object_ids) (simp add: toy_env_def hex24_def hex_digit_def pid_a_upper_def)
  from verify_mixed_cart [OF sig found nf] obtain d' where
    v: "verify toy_env no_fault mixed_request mixed_db = (reply_success 200 True ''Payment has been verified'', d')"
    and o: "findOne_order (order_id mixed_request) (orders d') =
               Some (mixed_order\<lparr>order_status := Paid, razorpayPaymentId := Some (payment_id mixed_request)\<rparr>)"
    and p: "\<And>k. products d' k =
                 (if k \<in> set (map (objectId toy_env)
                              (filter (\<lambda>r. isValid toy_env r \<and> length r = 24)
                                 (map productId (cart mixed_order))))
                  then map_option (\<lambda>p. p\<lparr>status := Sold\<rparr>) (products mixed_db k)
                  else products mixed_db k)"
    by blast
  have p': "\<And>k. products d' k =
      (if k = pid_a then map_option (\<lambda>p. p\<lparr>status := Sold\<rparr>) (products mixed_db k)
       else products mixed_db k)"
    using p unfolding keys by simp
  have a0: "products mixed_db pid_a = Some (listed_toy Listed)"
    by (simp add: mixed_db_def toy_db_def pid_a_def pid_b_def)
  have a: "products d' pid_a = Some (listed_toy Sold)"
    by (simp add: p' a0) (simp add: listed_toy_def toy_product_def)
  have b: "products d' pid_b = Some (toy_product Pending)"
    by (simp add: p' mixed_db_def toy_db_def pid_a_def pid_b_def)
  have u: "products d' pid_a_upper = None"
    by (simp add: p' mixed_db_def toy_db_def pid_a_def pid_b_def pid_a_upper_def)
  have s: "products d' ''static-1'' = None"
    by (simp add: p' mixed_db_def toy_db_def pid_a_def pid_b_def)
  have o': "map_option order_status (findOne_order ''order_3'' (orders d')) = Some Paid"
    using o by (simp add: mixed_request_def)
  show ?thesis
    using sig found nf c v a0 a b u s o' by simp
qed

text \<open>
  C6, as the code has it. When the product update of \<^verbatim>\<open>/verify\<close> throws after the signature
  matched and the order was marked paid, the handler answers with its one failure response:
  500, \<^verbatim>\<open>success: false\<close>, ``Error updating order status'' and the message of the exception.
  The response is the same however many products had been written, and the same as when
  the order update itself throws. The order stays paid with the payment reference recorded.
\<close>

theorem product_update_failure:
  assumes sig: "signature rq = hmac_sha256_hex e (key_secret e) (order_id rq @ ''|'' @ payment_id rq)"
    and found: "findOne_order (order_id rq) (orders d) = Some order"
    and some: "filter (\<lambda>k. isValid e k \<and> length k = 24) (map productId (cart order)) \<noteq> []"
    and thr: "throws_at flt = Some 2"
  shows "\<exists>d'. verify e flt rq d =
                (\<lparr>code = 500, success = Some False, message = ''Error updating order status'',
                  error = Some (thrown flt)\<rparr>, d')
           \<and> findOne_order (order_id rq) (orders d') =
               Some (order\<lparr>order_status := Paid, razorpayPaymentId := Some (payment_id rq)\<rparr>)
           \<and> (\<forall>n. fst (verify e (flt\<lparr>written := n\<rparr>) rq d) = fst (verify e flt rq d))
           \<and> fst (verify e (flt\<lparr>throws_at := Some 1\<rparr>) rq d) = fst (verify e flt rq d)"
proof -
  have "\<And>n. throws_at (flt\<lparr>written := n\<rparr>) = Some 2"
    using thr by simp
  then have w: "\<And>n. fst (verify e (flt\<lparr>written := n\<rparr>) rq d) = server_error flt"
    using verify_update_throws [OF sig found some] by (simp add: server_error_def)
  have t: "fst (verify e (flt\<lparr>throws_at := Some 1\<rparr>) rq d) = server_error flt"
    using sig found by (simp add: verify_def Let_def throws_def server_error_def)
  show ?thesis
    using verify_update_throws [OF sig found some thr] w t
    by (simp add: findOne_after_paid found server_error_def)
qed

theorem product_update_failure_witness:
  "signature good_request =
     hmac_sha256_hex toy_env (key_secret toy_env) (order_id good_request @ ''|'' @ payment_id good_request)
   \<and> findOne_order (order_id good_request) (orders toy_db) = Some toy_order
   \<and> filter (\<lambda>k. isValid toy_env k \<and> length k = 24) (map productId (cart toy_order)) \<noteq> []
   \<and> throws_at write_failure = Some 2
   \<and> (\<exists>d'. verify toy_env write_failure good_request toy_db =
                (\<lparr>code = 500, success = Some False, message = ''Error updating order status'',
                  error = Some ''connection lost''\<rparr>, d')
           \<and> map_option order_status (findOne_order ''order_1'' (orders d')) = Some Paid)"
proof -
  have thr: "throws_at write_failure = Some 2"
    by (simp add: write_failure_def)
  have some: "filter (\<lambda>k. isValid toy_env k \<and> length k = 24) (map productId (cart toy_order)) \<noteq> []"
    by (simp add: toy_valid_ids)
  from product_update_failure [OF toy_sig toy_found some thr] obtain d' where
    "verify toy_env write_failure good_request toy_db =
                (\<lparr>code = 500, success = Some False, message = ''Error updating order status'',
                  error = Some (thrown write_failure)\<rparr>, d')"
    "findOne_order (order_id good_request) (orders d') =
               Some (toy_order\<lparr>order_status := Paid, razorpayPaymentId := Some (payment_id good_request)\<rparr>)"
    by blast
  then have "verify toy_env write_failure good_request toy_db =
                (\<lparr>code = 500, success = Some False, message = ''Error updating order status'',
                  error = Some ''connection lost''\<rparr>, d')
           \<and> map_option order_status (findOne_order ''order_1'' (orders d')) = Some Paid"
    by (simp add: write_failure_def good_request_def)
  then show ?thesis
    using toy_sig toy_found some thr by blast
qed

text \<open>
  C6 as claimed fails: with one product written before the update throws, the response is a
  failure (500, \<^verbatim>\<open>success: false\<close>), equal to the response when the very first database call
  throws and nothing was changed, although the order is paid, one product is sold and the
  other is not.
\<close>

theorem partial_settlement_counterexample:
  "fst (verify toy_env write_failure good_request toy_db) =
     \<lparr>code = 500, success = Some False, message = ''Error updating order status'',
      error = Some ''connection lost''\<rparr>
   \<and> fst (verify toy_env write_failure good_request toy_db) =
       fst (verify toy_env (write_failure\<lparr>throws_at := Some 0\<rparr>) good_request toy_db)
   \<and> map_option order_status
        (findOne_order ''order_1'' (orders (snd (verify toy_env write_failure good_request toy_db))))
       = Some Paid
   \<and> map_option status (products (snd (verify toy_env write_failure good_request toy_db)) pid_a)
       = Some Sold
   \<and> map_option status (products (snd (verify toy_env write_failure good_request toy_db)) pid_b)
       = Some Pending"
proof -
  have thr: "throws_at write_failure = Some 2" "written write_failure = 1"
    by (simp_all add: write_failure_def)
  have some: "filter (\<lambda>k. isValid toy_env k \<and> length k = 24) (map productId (cart toy_order)) \<noteq> []"
    by (simp add: toy_valid_ids)
  have v: "verify toy_env write_failure good_request toy_db =
      (server_error write_failure,
       toy_db\<lparr>orders := findOneAndUpdate_paid (order_id good_request) (payment_id good_request) (orders toy_db),
              products := updateMany_sold [pid_a] (products toy_db)\<rparr>)"
    using verify_update_throws [OF toy_sig toy_found some thr(1)]
    by (simp add: toy_valid_ids toy_object_ids thr)
  have z: "fst (verify toy_env (write_failure\<lparr>throws_at := Some 0\<rparr>) good_request toy_db)
             = server_error write_failure"
    using toy_sig by (simp add: verify_def Let_def throws_def server_error_def)
  show ?thesis
    unfolding v z
    by (simp add: server_error_def write_failure_def good_request_def toy_db_def toy_order_def
        updateMany_sold_apply pid_a_def pid_b_def listed_toy_def toy_product_def)
qed



subsection \<open>Fallback pricing: theorems\<close>

lemma literal_half: "literal (1 / 2) = 1 / 2"
  by code_simp

lemma half_of_1500: "js_mul 1500 (1 / 2) = 750"
  by code_simp

lemma round_750: "Math_round 750 = 750"
  by code_simp

lemma nike_includes: "includes_str (toLowerCase ''Nike'') ''nike''"
  by (simp add: toLowerCase_def toLowerCase_char_def)

text \<open>The fallback itself: brand heuristic, market reference, fixed confidence.\<close>

lemma fallback_nike: "suggested_price (fallbackPriceSuggestion nike_details None) = 800"
  by (simp add: fallbackPriceSuggestion_def nike_details_def no_details_def nike_includes Let_def)

lemma fallback_reference: "suggested_price (fallbackPriceSuggestion pd (Some reference)) = 750"
  by (simp add: fallbackPriceSuggestion_def reference_def Let_def literal_half half_of_1500 round_750)

lemma fallback_confidence: "confidence_score (fallbackPriceSuggestion pd sp) = literal (6 / 10)"
  by (simp add: fallbackPriceSuggestion_def Let_def)

lemma fallback_bare: "suggested_price (fallbackPriceSuggestion no_details None) = 500"
  by (simp add: fallbackPriceSuggestion_def no_details_def Let_def)

lemma fallback_deterministic:
  "pd = pd' \<Longrightarrow> sp = sp' \<Longrightarrow> fallbackPriceSuggestion pd sp = fallbackPriceSuggestion pd' sp'"
  by simp

text \<open>
  Without a key, or when the request fails, the fallback gets the product details and the
  market reference. When the answer holds no object literal, or one that does not parse, it
  gets neither.
\<close>

lemma unavailable_falls_back:
  "apiKey = [] \<or> call = CallFailed \<Longrightarrow>
     suggestPriceWithSerp apiKey json_parse call pd sp = fallbackPriceSuggestion pd sp"
  by (auto simp: suggestPriceWithSerp_def)

lemma unparsable_falls_back:
  "json_match (case text of None \<Rightarrow> [] | Some t \<Rightarrow> t) = None
     \<or> (\<exists>m. json_match (case text of None \<Rightarrow> [] | Some t \<Rightarrow> t) = Some m \<and> json_parse m = None)
   \<Longrightarrow> parseGeminiResponse json_parse text = fallbackPriceSuggestion no_details None"
  by (auto simp: parseGeminiResponse_def Let_def)

lemma no_object: "json_match ''I cannot price this item'' = None"
  by (simp add: json_match_def)

text \<open>
  C7, at the input where the code leaves it. The key is set and the model answers with
  text that holds no JSON object. \<^verbatim>\<open>parseGeminiResponse\<close> then calls the fallback on the empty
  object and without the market reference: the price is 500 for the brand Nike, with the
  reference \<open>{min: 1000, max: 2000, avg: 1500}\<close> or without it. When the request fails, or
  when there is no key, the same inputs give 750 and 800.
\<close>

theorem unparsable_answer_drops_context:
  "suggested_price
     (suggestPriceWithSerp ''key'' json_parse (Responded (Some ''I cannot price this item''))
        nike_details (Some reference)) = 500
   \<and> suggested_price
     (suggestPriceWithSerp ''key'' json_parse (Responded (Some ''I cannot price this item''))
        nike_details None) = 500
   \<and> suggested_price (suggestPriceWithSerp ''key'' json_parse CallFailed nike_details (Some reference)) = 750
   \<and> suggested_price (suggestPriceWithSerp ''key'' json_parse CallFailed nike_details None) = 800
   \<and> suggested_price (suggestPriceWithSerp [] json_parse call nike_details (Some reference)) = 750
   \<and> suggested_price (suggestPriceWithSerp [] json_parse call nike_details None) = 800
   \<and> confidence_score
     (suggestPriceWithSerp ''key'' json_parse (Responded (Some ''I cannot price this item''))
        nike_details (Some reference)) = literal (6 / 10)"
proof -
  have p: "parseGeminiResponse json_parse (Some ''I cannot price this item'')
             = fallbackPriceSuggestion no_details None"
    by (rule unparsable_falls_back) (simp add: no_object)
  show ?thesis
    by (simp add: suggestPriceWithSerp_def p fallback_bare fallback_nike fallback_reference
        fallback_confidence)
qed

subsection \<open>Sell routes: theorems\<close>

text \<open>
  Every handler keeps \<open>listing_ok\<close> on every product, so it holds in every database the server
  can reach.
\<close>

lemma db_ok_update:
  "db_ok d \<Longrightarrow> listing_ok p \<Longrightarrow> db_ok (d\<lparr>products := (products d)(k \<mapsto> p)\<rparr>)"
  by (simp add: db_ok_def)

lemma db_ok_orders: "db_ok (d\<lparr>orders := os\<rparr>) = db_ok d"
  by (simp add: db_ok_def)

lemma listing_ok_sold: "listing_ok (p\<lparr>status := Sold\<rparr>)"
  by (simp add: listing_ok_def)

lemma db_ok_sold: "db_ok d \<Longrightarrow> db_ok (d\<lparr>products := updateMany_sold ids (products d)\<rparr>)"
  by (auto simp: db_ok_def updateMany_sold_def listing_ok_sold split: if_splits)

lemma db_ok_lookup: "db_ok d \<Longrightarrow> products d k = Some p \<Longrightarrow> listing_ok p"
  by (auto simp: db_ok_def)

lemma submit_ok: "db_ok d \<Longrightarrow> db_ok (snd (submit cloud flt caller rq analysis new_id d))"
  by (auto simp: submit_def Let_def listing_ok_def intro!: db_ok_update split: option.splits)

lemma accept_offer_ok: "db_ok d \<Longrightarrow> db_ok (snd (accept_offer flt caller pid pickup payment d))"
  by (auto simp: accept_offer_def listing_ok_def intro!: db_ok_update dest: db_ok_lookup
      split: option.splits)

lemma reject_offer_ok: "db_ok d \<Longrightarrow> db_ok (snd (reject_offer flt caller pid reason d))"
  by (auto simp: reject_offer_def Let_def listing_ok_def intro!: db_ok_update split: option.splits)

lemma adminReview_ok: "db_ok d \<Longrightarrow> db_ok (snd (adminReview e flt caller pid body now d))"
  by (auto simp: adminReview_def Let_def listing_ok_def intro!: db_ok_update split: option.splits)

lemma editPrice_ok:
  assumes "db_ok d"
  shows "db_ok (snd (editPrice e flt caller pid p mrp d))"
proof (cases "products d pid")
  case None
  with assms show ?thesis
    by (auto simp: editPrice_def split: option.splits)
next
  case (Some product)
  with assms have "listing_ok product"
    by (rule db_ok_lookup)
  with assms Some show ?thesis
    by (auto simp: editPrice_def Let_def listing_ok_def intro!: db_ok_update split: option.splits)
qed

lemma create_order_ok: "db_ok d \<Longrightarrow> db_ok (snd (create_order ord d))"
  by (simp add: create_order_def db_ok_orders)

lemma verify_ok_inv: "db_ok d \<Longrightarrow> db_ok (snd (verify e flt rq d))"
  by (auto simp: verify_def Let_def db_ok_orders intro!: db_ok_sold [where d = "d\<lparr>orders := os\<rparr>" for os, simplified]
      split: option.splits)

lemma complete_order_ok: "db_ok d \<Longrightarrow> db_ok (snd (complete_order e flt caller oid d))"
  by (auto simp: complete_order_def Let_def db_ok_orders intro!: db_ok_sold [where d = "d\<lparr>orders := os\<rparr>" for os, simplified]
      split: option.splits)

lemma handle_ok: "db_ok d \<Longrightarrow> db_ok (snd (handle e rq d))"
  by (cases rq)
    (simp_all add: submit_ok accept_offer_ok reject_offer_ok adminReview_ok editPrice_ok
      create_order_ok verify_ok_inv complete_order_ok)

lemma reachable_ok: "reachable e d \<Longrightarrow> db_ok d"
proof (induction rule: reachable.induct)
  case reachable_empty
  show ?case by (simp add: db_ok_def empty_db_def)
next
  case (reachable_step d rq)
  then show ?case by (simp add: handle_ok)
qed

lemma reachable_run: "reachable e d \<Longrightarrow> reachable e (run e rqs d)"
  by (induction rqs arbitrary: d) (simp_all add: reachable_step)

text \<open>Comparisons and casts on numbers of a body.\<close>

lemma js_le_num: "js_le f (JNum x) (JNum y) = (x \<le> y)"
  by (auto simp: js_le_def to_number_def)

lemma js_lt_num: "js_lt f (JNum x) (JNum y) = (x < y)"
  by (simp add: js_lt_def to_number_def)


lemma cast_number_num: "cast_number e (JNum x) = Some (Some x)"
  by (simp add: cast_number_def)


lemma cast_or_undefined_num:
  "cast_number e (or_undefined (JNum x)) = Some (if x = 0 then None else Some x)"
  by (simp add: cast_number_def or_undefined_def)

lemma percentage_num:
  "0 < x \<Longrightarrow> x < m \<Longrightarrow>
     percentage e (JNum m) (JNum x) = Fin (Math_round (js_mul (js_div (js_sub m x) m) 100))"
  by (simp add: percentage_def)


lemma discount_1000_700: "Math_round (js_mul (js_div (js_sub 1000 700) 1000) 100) = 30"
  by code_simp







text \<open>The concrete run that builds the database of the examples.\<close>

lemma toy_tags: "listing_tags (toy_product st) = [''Nike'', ''shirt'', ''male'', ''good'', ''jersey'']"
  by (simp add: listing_tags_def toy_product_def toy_analysis_def)

lemma approved_db_run: "run toy_env (take 2 toy_run) empty_db = approved_db"
  by (simp add: toy_run_def empty_db_def approved_db_def accepted_toy_def submit_def
      accept_offer_def no_fault_def throws_def seller_u1_def toy_submission_def allowedTypes_def
      nonempty_def toy_product_def reply_def Let_def)

lemma toy_approve:
  "adminReview toy_env no_fault (Some admin) pid_a approve_body now approved_db =
     (reply 200 ''Submission approved successfully'',
      approved_db\<lparr>products := (products approved_db)(pid_a \<mapsto>
         (listed_toy Listed)
           \<lparr>admin_review := toy_review\<lparr>reviewed_at := Some now\<rparr>,
            listed_product := toy_listing\<lparr>listed_at := Some now\<rparr>\<rparr>)\<rparr>)"
  by (simp add: adminReview_def admin_def admin_email_def no_fault_def throws_def approved_db_def
      accepted_toy_def listed_toy_def toy_product_def toy_review_def toy_listing_def toy_analysis_def
      approve_body_def Let_def cast_or_undefined_num cast_number_num js_le_num
      valid_percentage_def string_or_def pricing_types_def main_category_of_def listing_tags_def)

lemma toy_run_db: "run toy_env toy_run empty_db = toy_db"
proof -
  have split: "toy_run = take 2 toy_run @ drop 2 toy_run"
    by simp
  have run_append: "\<And>xs ys d. run toy_env (xs @ ys) d = run toy_env ys (run toy_env xs d)"
    subgoal for xs ys d by (induction xs arbitrary: d) simp_all
    done
  have "run toy_env toy_run empty_db = run toy_env (drop 2 toy_run) approved_db"
    using run_append [of "take 2 toy_run" "drop 2 toy_run" empty_db]
    by (simp add: approved_db_run)
  also have "\<dots> = toy_db"
    by (simp add: toy_run_def toy_approve)
      (simp add: approved_db_def toy_db_def submit_def create_order_def no_fault_def throws_def
        seller_u1_def toy_submission_def allowedTypes_def toy_product_def toy_order_def
        second_order_def pid_a_def pid_b_def reply_def Let_def listed_toy_def toy_review_def
        toy_listing_def)
  finally show ?thesis .
qed

lemma toy_db_reachable: "reachable toy_env toy_db"
  using reachable_run [OF reachable_empty, of toy_env toy_run] by (simp add: toy_run_db)

lemma approved_db_reachable: "reachable toy_env approved_db"
  using reachable_run [OF reachable_empty, of toy_env "take 2 toy_run"]
  by (simp add: approved_db_run)


text \<open>What a 200 from the price edit says.\<close>

lemma editPrice_200:
  assumes "editPrice e flt caller pid price_arg mrp d = (r, d')" and "code r = 200"
  shows "\<exists>p m dp product.
           js_truthy price_arg \<and> \<not> js_le (toNumber e) price_arg (JNum 0)
           \<and> products d pid = Some product \<and> status product = Listed
           \<and> cast_number e price_arg = Some p
           \<and> cast_number e (or_undefined mrp) = Some m
           \<and> stored_percentage
                (if js_truthy mrp \<and> js_lt (toNumber e) price_arg mrp
                 then percentage e mrp price_arg else Fin 0) = Some dp
           \<and> valid_percentage dp
           \<and> d' = d\<lparr>products := (products d)(pid \<mapsto>
                 product\<lparr>admin_review :=
                           (admin_review product)
                             \<lparr>final_price := p, ar_mrp := m, ar_discount_percentage := dp\<rparr>,
                         listed_product :=
                           (listed_product product)
                             \<lparr>price := p, lp_mrp := m, lp_discount_percentage := dp\<rparr>\<rparr>)\<rparr>"
proof -
  obtain u where u: "caller = Some u" "email u = admin_email"
    using assms by (auto simp: editPrice_def reply_def split: option.splits if_splits)
  have g: "js_truthy price_arg" "\<not> js_le (toNumber e) price_arg (JNum 0)" "\<not> throws flt 0"
    using assms u by (auto simp: editPrice_def reply_def split: if_splits)
  obtain product where p: "products d pid = Some product" "status product = Listed"
    using assms u g by (auto simp: editPrice_def reply_def split: option.splits if_splits)
  let ?dp = "stored_percentage
                (if js_truthy mrp \<and> js_lt (toNumber e) price_arg mrp
                 then percentage e mrp price_arg else Fin 0)"
  obtain pr where c1: "cast_number e price_arg = Some pr"
    using assms u g p
    by (cases "cast_number e price_arg") (auto simp: editPrice_def Let_def reply_def)
  obtain m where c2: "cast_number e (or_undefined mrp) = Some m"
    using assms u g p c1
    by (cases "cast_number e (or_undefined mrp)") (auto simp: editPrice_def Let_def reply_def)
  obtain dp where c3: "?dp = Some dp"
    using assms u g p c1 c2
    by (cases ?dp) (auto simp: editPrice_def Let_def reply_def)
  have v: "valid_percentage dp \<and> \<not> throws flt 1"
    using assms u g p c1 c2 c3
    by (auto simp: editPrice_def Let_def reply_def split: if_splits)
  have "d' = d\<lparr>products := (products d)(pid \<mapsto>
                 product\<lparr>admin_review :=
                           (admin_review product)
                             \<lparr>final_price := pr, ar_mrp := m, ar_discount_percentage := dp\<rparr>,
                         listed_product :=
                           (listed_product product)
                             \<lparr>price := pr, lp_mrp := m, lp_discount_percentage := dp\<rparr>\<rparr>)\<rparr>"
    using assms u g p c1 c2 c3 v
    by (simp add: editPrice_def Let_def)
  then show ?thesis
    using g p c1 c2 c3 v by blast
qed

text \<open>
  C9. A price edit that answers 200 was given a price that JavaScript takes as set and above
  0 (a number above 0, when it was a number) for a product whose status was listed; the
  status is still listed afterwards, and the review and the snapshot both carry the new price,
  as the schema casts it: the number itself, when it was a number. In a database the server
  can reach, both are the ones that an approval wrote.
\<close>

theorem editPrice_lockstep:
  assumes "editPrice e flt caller pid price_arg mrp d = (r, d')"
    and "code r = 200"
  shows "\<exists>p product product'.
           js_truthy price_arg \<and> \<not> js_le (toNumber e) price_arg (JNum 0)
           \<and> cast_number e price_arg = Some p
           \<and> products d pid = Some product \<and> status product = Listed
           \<and> products d' pid = Some product' \<and> status product' = Listed
           \<and> final_price (admin_review product') = p \<and> price (listed_product product') = p
           \<and> (\<forall>x. price_arg = JNum x \<longrightarrow> 0 < x \<and> p = Some x)
           \<and> (reachable e d \<longrightarrow>
                title (listed_product product') \<noteq> None
                \<and> listed_at (listed_product product') \<noteq> None
                \<and> reviewed_at (admin_review product') \<noteq> None)"
proof -
  from editPrice_200 [OF assms] obtain p m dp product where
    g: "js_truthy price_arg" "\<not> js_le (toNumber e) price_arg (JNum 0)"
    and c: "cast_number e price_arg = Some p"
    and p: "products d pid = Some product" "status product = Listed"
    and d': "d' = d\<lparr>products := (products d)(pid \<mapsto>
                 product\<lparr>admin_review :=
                           (admin_review product)
                             \<lparr>final_price := p, ar_mrp := m, ar_discount_percentage := dp\<rparr>,
                         listed_product :=
                           (listed_product product)
                             \<lparr>price := p, lp_mrp := m, lp_discount_percentage := dp\<rparr>\<rparr>)\<rparr>"
    by blast
  let ?product' = "product\<lparr>admin_review :=
                           (admin_review product)
                             \<lparr>final_price := p, ar_mrp := m, ar_discount_percentage := dp\<rparr>,
                         listed_product :=
                           (listed_product product)
                             \<lparr>price := p, lp_mrp := m, lp_discount_percentage := dp\<rparr>\<rparr>"
  have n: "\<forall>x. price_arg = JNum x \<longrightarrow> 0 < x \<and> p = Some x"
    using g c by (auto simp: js_le_num cast_number_num)
  have w: "title (listed_product ?product') \<noteq> None
           \<and> listed_at (listed_product ?product') \<noteq> None
           \<and> reviewed_at (admin_review ?product') \<noteq> None"
    if "reachable e d"
  proof -
    from reachable_ok [OF that] p(1) have "listing_ok product"
      by (rule db_ok_lookup)
    with p(2) show ?thesis
      by (simp add: listing_ok_def)
  qed
  have "products d' pid = Some ?product'" "status ?product' = Listed"
      "final_price (admin_review ?product') = p" "price (listed_product ?product') = p"
    using p by (simp_all add: d')
  then show ?thesis
    using g c p n w by blast
qed

lemma toy_edit:
  "editPrice toy_env no_fault (Some admin) pid_a (JNum 700) (JNum 1000) toy_db =
     (reply 200 ''Product price updated successfully'',
      toy_db\<lparr>products := (products toy_db)(pid_a \<mapsto>
         (listed_toy Listed)
           \<lparr>admin_review := toy_review\<lparr>final_price := Some 700, ar_mrp := Some 1000,
               ar_discount_percentage := Some 30\<rparr>,
            listed_product := toy_listing\<lparr>price := Some 700, lp_mrp := Some 1000,
               lp_discount_percentage := Some 30\<rparr>\<rparr>)\<rparr>)"
  by (simp add: editPrice_def admin_def admin_email_def no_fault_def throws_def toy_db_def
      listed_toy_def toy_product_def Let_def pid_a_def pid_b_def js_le_num js_lt_num
      cast_number_num cast_or_undefined_num percentage_num discount_1000_700
      valid_percentage_def)

theorem editPrice_lockstep_witness:
  "code (fst (editPrice toy_env no_fault (Some admin) pid_a (JNum 700) (JNum 1000) toy_db)) = 200
   \<and> reachable toy_env toy_db
   \<and> (\<exists>product'.
         products (snd (editPrice toy_env no_fault (Some admin) pid_a (JNum 700) (JNum 1000) toy_db)) pid_a
           = Some product'
         \<and> status product' = Listed
         \<and> final_price (admin_review product') = Some 700
         \<and> price (listed_product product') = Some 700
         \<and> title (listed_product product') \<noteq> None
         \<and> reviewed_at (admin_review product') \<noteq> None)"
proof -
  let ?run = "editPrice toy_env no_fault (Some admin) pid_a (JNum 700) (JNum 1000) toy_db"
  have c: "code (fst ?run) = 200"
    by (simp add: toy_edit reply_def)
  have e: "?run = (fst ?run, snd ?run)"
    by simp
  from editPrice_lockstep [OF e c] obtain p product' where
    "products (snd ?run) pid_a = Some product'" "status product' = Listed"
    "final_price (admin_review product') = p" "price (listed_product product') = p"
    "\<forall>x. JNum 700 = JNum x \<longrightarrow> 0 < x \<and> p = Some x"
    "reachable toy_env toy_db \<longrightarrow>
                title (listed_product product') \<noteq> None
                \<and> listed_at (listed_product product') \<noteq> None
                \<and> reviewed_at (admin_review product') \<noteq> None"
    by blast
  then have "products (snd ?run) pid_a = Some product' \<and> status product' = Listed
         \<and> final_price (admin_review product') = Some 700
         \<and> price (listed_product product') = Some 700
         \<and> title (listed_product product') \<noteq> None
         \<and> reviewed_at (admin_review product') \<noteq> None"
    using toy_db_reachable by simp
  then show ?thesis
    using c toy_db_reachable by blast
qed


lemma adminReview_approve_any_status:
  assumes "products d pid = Some product"
  shows "fst (adminReview toy_env no_fault (Some admin) pid approve_body now d)
           = reply 200 ''Submission approved successfully''
         \<and> map_option status (products (snd (adminReview toy_env no_fault (Some admin) pid approve_body now d)) pid)
             = Some Listed"
  using assms
  by (simp add: adminReview_def admin_def admin_email_def no_fault_def throws_def approve_body_def
      Let_def cast_or_undefined_num cast_number_num js_le_num valid_percentage_def string_or_def
      pricing_types_def)

lemma adminReview_reject_any_status:
  assumes "email u = admin_email" and "rb_action body = Some ''reject''"
    and "products d pid = Some product" and "throws_at flt = None"
  shows "fst (adminReview e flt (Some u) pid body now d) = reply 200 ''Submission rejectd successfully''
         \<and> map_option status (products (snd (adminReview e flt (Some u) pid body now d)) pid) = Some Rejected
         \<and> map_option listed_product (products (snd (adminReview e flt (Some u) pid body now d)) pid)
             = Some (listed_product product)"
  using assms by (simp add: adminReview_def Let_def throws_def)

lemma paid_db_products: "products paid_db = updateMany_sold [pid_a, pid_b] (products toy_db)"
  by (simp add: paid_db_def toy_verify)

lemma paid_db_a: "products paid_db pid_a = Some (listed_toy Sold)"
  by (simp add: paid_db_products updateMany_sold_apply toy_db_def pid_a_def pid_b_def listed_toy_def
      toy_product_def)


text \<open>
  C1, at inputs where the code leaves it. The review handler never reads the status. On the
  product that the verified payment has just marked sold, an approving review answers 200 and
  the product is listed again; on a listed product a rejecting review answers 200 and the
  product is rejected; on a product still pending, which the seller has not accepted, an
  approving review answers 200 and lists it.
\<close>

theorem review_ignores_status:
  "map_option status (products paid_db pid_a) = Some Sold
   \<and> fst (adminReview toy_env no_fault (Some admin) pid_a approve_body 2 paid_db)
       = reply 200 ''Submission approved successfully''
   \<and> map_option status
       (products (snd (adminReview toy_env no_fault (Some admin) pid_a approve_body 2 paid_db)) pid_a)
       = Some Listed
   \<and> map_option status (products toy_db pid_a) = Some Listed
   \<and> fst (adminReview toy_env no_fault (Some admin) pid_a reject_body 2 toy_db)
       = reply 200 ''Submission rejectd successfully''
   \<and> map_option status
       (products (snd (adminReview toy_env no_fault (Some admin) pid_a reject_body 2 toy_db)) pid_a)
       = Some Rejected
   \<and> map_option status (products toy_db pid_b) = Some Pending
   \<and> map_option status
       (products (snd (adminReview toy_env no_fault (Some admin) pid_b approve_body 2 toy_db)) pid_b)
       = Some Listed"
proof -
  have adm: "email admin = admin_email"
    by (simp add: admin_def admin_email_def)
  have nf: "throws_at no_fault = None"
    by (simp add: no_fault_def)
  have rb: "rb_action reject_body = Some ''reject''"
    by (simp add: reject_body_def)
  have ta: "products toy_db pid_a = Some (listed_toy Listed)"
    by (simp add: toy_db_def pid_a_def pid_b_def)
  have tb: "products toy_db pid_b = Some (toy_product Pending)"
    by (simp add: toy_db_def)
  note 1 = adminReview_approve_any_status [OF paid_db_a, of 2]
  note 2 = adminReview_reject_any_status [OF adm rb ta nf, of toy_env 2]
  note 3 = adminReview_approve_any_status [OF tb, of 2]
  show ?thesis
    using 1 2 3 by (simp add: paid_db_a ta tb listed_toy_def toy_product_def)
qed













end
